theory Spec2Isabelle
  imports Complex_Main "HOL-Library.Word"
begin

section \<open>Values of the source language\<close>

text \<open>
  A TypeScript string is a sequence of UTF-16 code units. A TypeScript \<open>number\<close> that is
  used as a coordinate is either \<open>NaN\<close> or a finite value; finite values are modelled
  as rationals, so that \<open>Math.floor\<close> and the \<open>(x | 0) !== x\<close> integrality test of the
  source keep their meaning. Infinite values are left out.
  Names of private members start with an underscore in the source; here the underscore
  is replaced by the prefix \<open>p_\<close>.
\<close>

type_synonym charCode = "16 word"
type_synonym jsstring = "charCode list"

datatype jsnumber = NaN | Num rat

datatype error =
    ModelDisposed           \<comment> \<open>\<open>Error('Model is disposed!')\<close>\<close>
  | IllegalLineNumber       \<comment> \<open>\<open>Error('Illegal value for lineNumber')\<close>\<close>
  | InvalidChangeAccessor   \<comment> \<open>\<open>Error('Invalid change accessor')\<close>\<close>
  | ReferenceError string   \<comment> \<open>\<open>ReferenceError: x is not defined\<close>, with the name \<open>x\<close>\<close>

definition unboundIdentifier :: "string \<Rightarrow> error + 'a" where
  \<comment> \<open>the evaluation of an identifier that no declaration and no import of the module
      binds: it throws a \<open>ReferenceError\<close>\<close>
  "unboundIdentifier name = Inl (ReferenceError name)"

definition floorOrOne :: "jsnumber \<Rightarrow> int" where
  \<comment> \<open>\<open>Math.floor((typeof x === 'number' && !isNaN(x)) ? x : 1)\<close>\<close>
  "floorOrOne x = (case x of NaN \<Rightarrow> 1 | Num r \<Rightarrow> \<lfloor>r\<rfloor>)"

definition toInt32 :: "rat \<Rightarrow> int" where
  \<comment> \<open>\<open>x | 0\<close>: truncate towards zero, then wrap into the signed 32-bit range\<close>
  "toInt32 r = (let t = (if r < 0 then \<lceil>r\<rceil> else \<lfloor>r\<rfloor>) in ((t + 2 ^ 31) mod 2 ^ 32) - 2 ^ 31)"

definition isHighSurrogate :: "charCode \<Rightarrow> bool" where
  \<comment> \<open>Modelled from the spec: \<open>strings.isHighSurrogate\<close> is not among the sources; the high
      half of a UTF-16 surrogate pair is a code unit in \<open>0xD800..0xDBFF\<close>.\<close>
  "isHighSurrogate c = (0xD800 \<le> c \<and> c \<le> 0xDBFF)"

definition isLowSurrogate :: "charCode \<Rightarrow> bool" where
  \<comment> \<open>Modelled from the spec: the low half of a UTF-16 surrogate pair is a code unit in
      \<open>0xDC00..0xDFFF\<close>.\<close>
  "isLowSurrogate c = (0xDC00 \<le> c \<and> c \<le> 0xDFFF)"

record Position =
  lineNumber :: int
  column :: int

record IPosition =
  ip_lineNumber :: jsnumber
  ip_column :: jsnumber
  ip_isPosition :: bool     \<comment> \<open>\<open>position instanceof Position\<close>\<close>

definition toIPosition :: "Position \<Rightarrow> IPosition" where
  \<comment> \<open>a \<open>Position\<close> object handed back to the model as an argument\<close>
  "toIPosition p = \<lparr>ip_lineNumber = Num (of_int (lineNumber p)),
                    ip_column = Num (of_int (column p)), ip_isPosition = True\<rparr>"

record Range =
  startLineNumber :: int
  startColumn :: int
  endLineNumber :: int
  endColumn :: int

datatype RangeKind = PlainObject | RangeInstance | SelectionInstance

record IRange =
  ir_startLineNumber :: jsnumber
  ir_startColumn :: jsnumber
  ir_endLineNumber :: jsnumber
  ir_endColumn :: jsnumber
  ir_kind :: RangeKind      \<comment> \<open>what \<open>instanceof Range\<close> and \<open>instanceof Selection\<close> answer\<close>

definition newRange :: "int \<Rightarrow> int \<Rightarrow> int \<Rightarrow> int \<Rightarrow> Range" where
  \<comment> \<open>Modelled from the spec: the constructor of \<open>Range\<close> is not among the sources; a Range
      is an ordered pair of positions with start \<le> end in document order, so the
      constructor swaps the two ends when they come in the other order.\<close>
  "newRange sl sc el ec =
     (if sl > el \<or> (sl = el \<and> sc > ec)
      then \<lparr>startLineNumber = el, startColumn = ec, endLineNumber = sl, endColumn = sc\<rparr>
      else \<lparr>startLineNumber = sl, startColumn = sc, endLineNumber = el, endColumn = ec\<rparr>)"

section \<open>The text buffer\<close>

text \<open>
  Modelled from the spec: the piece-tree text buffer behind \<open>ITextBuffer\<close> is not among
  the sources. The spec describes it as an ordered sequence of lines with one global
  end-of-line style, and an offset as the zero-based index of a character in the
  flattened text. A buffer always has at least one line, so the first line is a field of
  its own. Line numbers are 1-based; the model calls the line accessors only with a
  line number it has checked, outside \<open>1..getLineCount\<close> they are unspecified.
\<close>

datatype EndOfLine = LF | CRLF

record TextBuffer =
  firstLine :: jsstring
  moreLines :: "jsstring list"
  bufferEOL :: EndOfLine

definition bufferLines :: "TextBuffer \<Rightarrow> jsstring list" where
  "bufferLines b = firstLine b # moreLines b"

definition eolLength :: "TextBuffer \<Rightarrow> int" where
  "eolLength b = (case bufferEOL b of LF \<Rightarrow> 1 | CRLF \<Rightarrow> 2)"

definition buffer_getLineCount :: "TextBuffer \<Rightarrow> int" where
  "buffer_getLineCount b = int (length (bufferLines b))"

definition buffer_getLineContent :: "TextBuffer \<Rightarrow> int \<Rightarrow> jsstring" where
  "buffer_getLineContent b lno = bufferLines b ! nat (lno - 1)"

definition buffer_getLineLength :: "TextBuffer \<Rightarrow> int \<Rightarrow> int" where
  "buffer_getLineLength b lno = int (length (buffer_getLineContent b lno))"

definition buffer_getLineCharCode :: "TextBuffer \<Rightarrow> int \<Rightarrow> int \<Rightarrow> charCode" where
  "buffer_getLineCharCode b lno i = buffer_getLineContent b lno ! nat i"

definition buffer_getLength :: "TextBuffer \<Rightarrow> int" where
  "buffer_getLength b =
     sum_list (map (\<lambda>l. int (length l)) (bufferLines b))
       + (buffer_getLineCount b - 1) * eolLength b"

definition buffer_getOffsetAt :: "TextBuffer \<Rightarrow> int \<Rightarrow> int \<Rightarrow> int" where
  "buffer_getOffsetAt b lno col =
     sum_list (map (\<lambda>l. int (length l) + eolLength b) (take (nat (lno - 1)) (bufferLines b)))
       + (col - 1)"

fun positionAtFrom :: "int \<Rightarrow> int \<Rightarrow> jsstring list \<Rightarrow> int \<Rightarrow> Position" where
  "positionAtFrom e lno [] off = \<lparr>lineNumber = lno, column = off + 1\<rparr>"
| "positionAtFrom e lno [l] off = \<lparr>lineNumber = lno, column = off + 1\<rparr>"
| "positionAtFrom e lno (l # l' # ls) off =
     (if off < int (length l) + e then \<lparr>lineNumber = lno, column = off + 1\<rparr>
      else positionAtFrom e (lno + 1) (l' # ls) (off - (int (length l) + e)))"

definition buffer_getPositionAt :: "TextBuffer \<Rightarrow> int \<Rightarrow> Position" where
  "buffer_getPositionAt b off = positionAtFrom (eolLength b) 1 (bufferLines b) off"

section \<open>Decorations, events and the state of a text model\<close>

datatype TrackedRangeStickiness =
    AlwaysGrowsWhenTypingAtEdges
  | NeverGrowsWhenTypingAtEdges
  | GrowsOnlyWhenTypingBefore
  | GrowsOnlyWhenTypingAfter

datatype HoverMessage = MessageString jsstring | MessageArray "jsstring list"

text \<open>
  \<open>IModelDecorationOptions\<close>: every property is optional (\<open>None\<close> stands for
  \<open>undefined\<close> or \<open>null\<close>). An instance of the class \<open>ModelDecorationOptions\<close> is
  such an object whose properties have all been normalised by the constructor.
\<close>

record IModelDecorationOptions =
  isModelDecorationOptions :: bool    \<comment> \<open>\<open>options instanceof ModelDecorationOptions\<close>\<close>
  stickiness :: "TrackedRangeStickiness option"
  zIndex :: "jsnumber option"
  className :: "jsstring option"
  hoverMessage :: "HoverMessage option"
  glyphMarginHoverMessage :: "HoverMessage option"
  isWholeLine :: "bool option"
  showIfCollapsed :: "bool option"
  collapseOnReplaceEdit :: "bool option"
  glyphMarginClassName :: "jsstring option"
  linesDecorationsClassName :: "jsstring option"
  firstLineDecorationClassName :: "jsstring option"
  marginClassName :: "jsstring option"
  inlineClassName :: "jsstring option"
  inlineClassNameAffectsLetterSpacing :: "bool option"
  beforeContentClassName :: "jsstring option"
  afterContentClassName :: "jsstring option"

record IModelDeltaDecoration =
  dd_range :: IRange
  dd_options :: IModelDecorationOptions

text \<open>
  Modelled from the spec: the class \<open>IntervalNode\<close> is not among the sources. The model
  keeps the members that the text model reads and writes: the id, the owner id, the
  options, the cached version stamp, the cached absolute offsets and the lazily computed
  range.
\<close>

record IntervalNode =
  node_id :: string
  ownerId :: int
  node_options :: "IModelDecorationOptions option"
  cachedVersionId :: int
  cachedAbsoluteStart :: int
  cachedAbsoluteEnd :: int
  node_range :: "Range option"

datatype ModelRawChange =
    ModelRawFlush
  | ModelRawLineChanged int jsstring
  | ModelRawLinesDeleted int int
  | ModelRawLinesInserted int int "jsstring list"

record Selection =
  selectionStartLineNumber :: int
  selectionStartColumn :: int
  positionLineNumber :: int
  positionColumn :: int

record ModelRawContentChangedEvent =
  rawChanges :: "ModelRawChange list"
  resultingSelection :: "Selection list option"

record IModelContentChange =
  change_range :: Range
  rangeOffset :: int
  rangeLength :: int
  change_text :: jsstring
  forceMoveMarkers :: "bool option"   \<comment> \<open>present on the changes that the buffer reports\<close>

text \<open>
  The content-changed event is an object literal with the two properties \<open>changes\<close> and
  \<open>isFlush\<close>. \<open>versionId\<close> is what a consumer reads from the property of that name:
  \<open>None\<close> stands for \<open>undefined\<close>, the value of a property that the object does not have.
\<close>

record IModelContentChangedEvent =
  changes :: "IModelContentChange list"
  isFlush :: bool
  versionId :: "int option"

record InternalModelContentChangeEvent =
  rawContentChangedEvent :: ModelRawContentChangedEvent
  contentChangedEvent :: IModelContentChangedEvent

datatype Channel = FastEvent | SlowEvent

text \<open>
  The two emitters. \<open>fired\<close> is the sequence of events handed to the listeners of the
  fast and of the slow emitter, in the order of the calls of \<open>Emitter.fire\<close>;
  \<open>decorationsFired\<close> counts the events handed to the decoration listeners.
\<close>

record DidChangeContentEmitter =
  deferredCnt :: int
  deferredEvent :: "InternalModelContentChangeEvent option"
  fired :: "(Channel \<times> InternalModelContentChangeEvent) list"

record DidChangeDecorationsEmitter =
  dec_deferredCnt :: int
  shouldFire :: bool
  decorationsFired :: nat

datatype CollaboratorCall =
    BufferApplyEdits
  | TreeAcceptReplace int int int bool

text \<open>
  The state of a \<open>TextModel\<close>. \<open>decorations\<close> is the dictionary \<open>_decorations\<close>; a node
  object is stored under its id, which is the only key it is ever stored under.
  \<open>decorationsTree\<close> holds the ids of the nodes that are in the interval tree; every
  node the source inserts into the tree is in the dictionary at that moment, and it is
  taken out of the tree before it is taken out of the dictionary.
  \<open>callLog\<close> is not a member of the class: it records, in program order, the calls of
  \<open>_buffer.applyEdits\<close> and \<open>_decorationsTree.acceptReplace\<close>.
\<close>

record TextModel =
  buffer :: TextBuffer
  trimAutoWhitespace :: bool
  isDisposed :: bool
  isDisposing :: bool
  instanceId :: string
  lastDecorationId :: nat
  decorations :: "string \<rightharpoonup> IntervalNode"
  decorationsTree :: "string list"
  trimAutoWhitespaceLines :: "int list option"
  eventEmitter :: DidChangeContentEmitter
  onDidChangeDecorations :: DidChangeDecorationsEmitter
  callLog :: "CollaboratorCall list"

section \<open>Reading: line accessors\<close>

definition p_assertNotDisposed :: "TextModel \<Rightarrow> error + unit" where
  "p_assertNotDisposed m = (if isDisposed m then Inl ModelDisposed else Inr ())"

definition getLineCount :: "TextModel \<Rightarrow> error + int" where
  "getLineCount m =
     (case p_assertNotDisposed m of Inl e \<Rightarrow> Inl e
      | Inr _ \<Rightarrow> Inr (buffer_getLineCount (buffer m)))"

definition getLineContent :: "TextModel \<Rightarrow> int \<Rightarrow> error + jsstring" where
  "getLineContent m lineNo =
     (case p_assertNotDisposed m of Inl e \<Rightarrow> Inl e
      | Inr _ \<Rightarrow>
        (case getLineCount m of Inl e \<Rightarrow> Inl e
         | Inr cnt \<Rightarrow>
           if lineNo < 1 \<or> lineNo > cnt then Inl IllegalLineNumber
           else Inr (buffer_getLineContent (buffer m) lineNo)))"

definition getLineMaxColumn :: "TextModel \<Rightarrow> int \<Rightarrow> error + int" where
  "getLineMaxColumn m lineNo =
     (case p_assertNotDisposed m of Inl e \<Rightarrow> Inl e
      | Inr _ \<Rightarrow>
        (case getLineCount m of Inl e \<Rightarrow> Inl e
         | Inr cnt \<Rightarrow>
           if lineNo < 1 \<or> lineNo > cnt then Inl IllegalLineNumber
           else Inr (buffer_getLineLength (buffer m) lineNo + 1)))"

section \<open>Validation of positions and ranges\<close>

datatype StringOffsetValidationType = Relaxed | SurrogatePairs

definition p_isValidPosition ::
  "TextModel \<Rightarrow> jsnumber \<Rightarrow> jsnumber \<Rightarrow> StringOffsetValidationType \<Rightarrow> error + bool" where
  "p_isValidPosition m lineNo col validationType =
     (case (lineNo, col) of
        (Num l, Num c) \<Rightarrow>
          if l < 1 \<or> c < 1 then Inr False
          else if of_int (toInt32 l) \<noteq> l \<or> of_int (toInt32 c) \<noteq> c then Inr False
          else if \<lfloor>l\<rfloor> > buffer_getLineCount (buffer m) then Inr False
          else if c = 1 then Inr True
          else
            (case getLineMaxColumn m \<lfloor>l\<rfloor> of Inl e \<Rightarrow> Inl e
             | Inr maxColumn \<Rightarrow>
               if \<lfloor>c\<rfloor> > maxColumn then Inr False
               else if validationType = SurrogatePairs
                       \<and> isHighSurrogate (buffer_getLineCharCode (buffer m) \<lfloor>l\<rfloor> (\<lfloor>c\<rfloor> - 2))
               then Inr False
               else Inr True)
      | _ \<Rightarrow> Inr False)"

definition p_validatePosition ::
  "TextModel \<Rightarrow> jsnumber \<Rightarrow> jsnumber \<Rightarrow> StringOffsetValidationType \<Rightarrow> error + Position" where
  "p_validatePosition m lineNo0 col0 validationType =
     (let lineNo = floorOrOne lineNo0;
          col = floorOrOne col0;
          lineCount = buffer_getLineCount (buffer m)
      in if lineNo < 1 then Inr \<lparr>lineNumber = 1, column = 1\<rparr>
         else if lineNo > lineCount then
           (case getLineMaxColumn m lineCount of Inl e \<Rightarrow> Inl e
            | Inr maxColumn \<Rightarrow> Inr \<lparr>lineNumber = lineCount, column = maxColumn\<rparr>)
         else if col \<le> 1 then Inr \<lparr>lineNumber = lineNo, column = 1\<rparr>
         else
           (case getLineMaxColumn m lineNo of Inl e \<Rightarrow> Inl e
            | Inr maxColumn \<Rightarrow>
              if col \<ge> maxColumn then Inr \<lparr>lineNumber = lineNo, column = maxColumn\<rparr>
              else if validationType = SurrogatePairs
                      \<and> isHighSurrogate (buffer_getLineCharCode (buffer m) lineNo (col - 2))
              then Inr \<lparr>lineNumber = lineNo, column = col - 1\<rparr>
              else Inr \<lparr>lineNumber = lineNo, column = col\<rparr>))"

definition validatePosition :: "TextModel \<Rightarrow> IPosition \<Rightarrow> error + Position" where
  \<comment> \<open>The fast path returns the argument itself; its coordinates are integers then.\<close>
  "validatePosition m position =
     (case p_assertNotDisposed m of Inl e \<Rightarrow> Inl e
      | Inr _ \<Rightarrow>
        (case (if ip_isPosition position
               then p_isValidPosition m (ip_lineNumber position) (ip_column position) SurrogatePairs
               else Inr False) of
           Inl e \<Rightarrow> Inl e
         | Inr True \<Rightarrow> Inr \<lparr>lineNumber = floorOrOne (ip_lineNumber position),
                             column = floorOrOne (ip_column position)\<rparr>
         | Inr False \<Rightarrow>
             p_validatePosition m (ip_lineNumber position) (ip_column position) SurrogatePairs))"

definition p_isValidRange :: "TextModel \<Rightarrow> IRange \<Rightarrow> StringOffsetValidationType \<Rightarrow> error + bool" where
  "p_isValidRange m r validationType =
     (case p_isValidPosition m (ir_startLineNumber r) (ir_startColumn r) Relaxed of
        Inl e \<Rightarrow> Inl e
      | Inr False \<Rightarrow> Inr False
      | Inr True \<Rightarrow>
        (case p_isValidPosition m (ir_endLineNumber r) (ir_endColumn r) Relaxed of
           Inl e \<Rightarrow> Inl e
         | Inr False \<Rightarrow> Inr False
         | Inr True \<Rightarrow>
           if validationType = SurrogatePairs then
             (let sl = floorOrOne (ir_startLineNumber r); sc = floorOrOne (ir_startColumn r);
                  el = floorOrOne (ir_endLineNumber r); ec = floorOrOne (ir_endColumn r);
                  startInsideSurrogatePair =
                    (sc > 1 \<and> isHighSurrogate (buffer_getLineCharCode (buffer m) sl (sc - 2)));
                  endInsideSurrogatePair =
                    (ec > 1 \<and> ec \<le> buffer_getLineLength (buffer m) el
                       \<and> isHighSurrogate (buffer_getLineCharCode (buffer m) el (ec - 2)))
              in if \<not> startInsideSurrogatePair \<and> \<not> endInsideSurrogatePair
                 then Inr True else Inr False)
           else Inr True))"

definition validateRange :: "TextModel \<Rightarrow> IRange \<Rightarrow> error + Range" where
  \<comment> \<open>The fast path returns the argument itself; its coordinates are integers then.\<close>
  "validateRange m r =
     (case p_assertNotDisposed m of Inl e \<Rightarrow> Inl e
      | Inr _ \<Rightarrow>
        (case (if ir_kind r = RangeInstance then p_isValidRange m r SurrogatePairs
               else Inr False) of
           Inl e \<Rightarrow> Inl e
         | Inr True \<Rightarrow>
             Inr \<lparr>startLineNumber = floorOrOne (ir_startLineNumber r),
                  startColumn = floorOrOne (ir_startColumn r),
                  endLineNumber = floorOrOne (ir_endLineNumber r),
                  endColumn = floorOrOne (ir_endColumn r)\<rparr>
         | Inr False \<Rightarrow>
           (case p_validatePosition m (ir_startLineNumber r) (ir_startColumn r) Relaxed of
              Inl e \<Rightarrow> Inl e
            | Inr start \<Rightarrow>
              (case p_validatePosition m (ir_endLineNumber r) (ir_endColumn r) Relaxed of
                 Inl e \<Rightarrow> Inl e
               | Inr end' \<Rightarrow>
                 (let sl = lineNumber start; sc = column start;
                      el = lineNumber end'; ec = column end';
                      startInsideSurrogatePair =
                        (sc > 1 \<and> isHighSurrogate (buffer_getLineCharCode (buffer m) sl (sc - 2)));
                      endInsideSurrogatePair =
                        (ec > 1 \<and> ec \<le> buffer_getLineLength (buffer m) el
                           \<and> isHighSurrogate (buffer_getLineCharCode (buffer m) el (ec - 2)))
                  in if \<not> startInsideSurrogatePair \<and> \<not> endInsideSurrogatePair
                     then Inr (newRange sl sc el ec)
                     else if sl = el \<and> sc = ec
                     then Inr (newRange sl (sc - 1) el (ec - 1))
                     else if startInsideSurrogatePair \<and> endInsideSurrogatePair
                     then Inr (newRange sl (sc - 1) el (ec + 1))
                     else if startInsideSurrogatePair
                     then Inr (newRange sl (sc - 1) el ec)
                     else Inr (newRange sl sc el (ec + 1)))))))"

definition getOffsetAt :: "TextModel \<Rightarrow> IPosition \<Rightarrow> error + int" where
  "getOffsetAt m rawPosition =
     (case p_assertNotDisposed m of Inl e \<Rightarrow> Inl e
      | Inr _ \<Rightarrow>
        (case p_validatePosition m (ip_lineNumber rawPosition) (ip_column rawPosition) Relaxed of
           Inl e \<Rightarrow> Inl e
         | Inr position \<Rightarrow>
             Inr (buffer_getOffsetAt (buffer m) (lineNumber position) (column position))))"

definition getPositionAt :: "TextModel \<Rightarrow> int \<Rightarrow> error + Position" where
  "getPositionAt m rawOffset =
     (case p_assertNotDisposed m of Inl e \<Rightarrow> Inl e
      | Inr _ \<Rightarrow>
        (let offset = min (buffer_getLength (buffer m)) (max 0 rawOffset)
         in Inr (buffer_getPositionAt (buffer m) offset)))"

definition bindE :: "error + 'a \<Rightarrow> ('a \<Rightarrow> error + 'b) \<Rightarrow> error + 'b" where
  \<comment> \<open>sequencing of two calls: an exception of the first call ends the whole\<close>
  "bindE r f = (case r of Inl e \<Rightarrow> Inl e | Inr x \<Rightarrow> f x)"

section \<open>The emitters\<close>

text \<open>
  \<open>InternalModelContentChangeEvent.merge\<close> is not among the sources: the functions of the
  content emitter take it as the parameter \<open>merge\<close>.
\<close>

definition contentEmitter_beginDeferredEmit :: "DidChangeContentEmitter \<Rightarrow> DidChangeContentEmitter" where
  "contentEmitter_beginDeferredEmit em = em\<lparr>deferredCnt := deferredCnt em + 1\<rparr>"

definition contentEmitter_deliver ::
  "InternalModelContentChangeEvent \<Rightarrow> DidChangeContentEmitter \<Rightarrow> DidChangeContentEmitter" where
  \<comment> \<open>\<open>this._fastEmitter.fire(e); this._slowEmitter.fire(e);\<close>\<close>
  "contentEmitter_deliver e em = em\<lparr>fired := fired em @ [(FastEvent, e), (SlowEvent, e)]\<rparr>"

definition contentEmitter_endDeferredEmit ::
  "Selection list option \<Rightarrow> DidChangeContentEmitter \<Rightarrow> DidChangeContentEmitter" where
  "contentEmitter_endDeferredEmit sel em =
     (let em1 = em\<lparr>deferredCnt := deferredCnt em - 1\<rparr>
      in if deferredCnt em1 = 0 then
           (case deferredEvent em1 of
              None \<Rightarrow> em1
            | Some d \<Rightarrow>
                (let e = d\<lparr>rawContentChangedEvent :=
                             (rawContentChangedEvent d)\<lparr>resultingSelection := sel\<rparr>\<rparr>
                 in contentEmitter_deliver e (em1\<lparr>deferredEvent := None\<rparr>)))
         else em1)"

definition contentEmitter_fire ::
  "(InternalModelContentChangeEvent \<Rightarrow> InternalModelContentChangeEvent \<Rightarrow> InternalModelContentChangeEvent)
     \<Rightarrow> InternalModelContentChangeEvent \<Rightarrow> DidChangeContentEmitter \<Rightarrow> DidChangeContentEmitter" where
  "contentEmitter_fire merge e em =
     (if deferredCnt em > 0 then
        (case deferredEvent em of
           Some d \<Rightarrow> em\<lparr>deferredEvent := Some (merge d e)\<rparr>
         | None \<Rightarrow> em\<lparr>deferredEvent := Some e\<rparr>)
      else contentEmitter_deliver e em)"

definition decorationsEmitter_beginDeferredEmit ::
  "DidChangeDecorationsEmitter \<Rightarrow> DidChangeDecorationsEmitter" where
  "decorationsEmitter_beginDeferredEmit em = em\<lparr>dec_deferredCnt := dec_deferredCnt em + 1\<rparr>"

definition decorationsEmitter_endDeferredEmit ::
  "DidChangeDecorationsEmitter \<Rightarrow> DidChangeDecorationsEmitter" where
  "decorationsEmitter_endDeferredEmit em =
     (let em1 = em\<lparr>dec_deferredCnt := dec_deferredCnt em - 1\<rparr>
      in if dec_deferredCnt em1 = 0 then
           (if shouldFire em1
            then em1\<lparr>shouldFire := False, decorationsFired := Suc (decorationsFired em1)\<rparr>
            else em1)
         else em1)"

definition decorationsEmitter_fire :: "DidChangeDecorationsEmitter \<Rightarrow> DidChangeDecorationsEmitter" where
  "decorationsEmitter_fire em = em\<lparr>shouldFire := True\<rparr>"

section \<open>More of the text buffer\<close>




definition buffer_getValueLengthInRange :: "TextBuffer \<Rightarrow> Range \<Rightarrow> int" where
  "buffer_getValueLengthInRange b r =
     buffer_getOffsetAt b (endLineNumber r) (endColumn r)
       - buffer_getOffsetAt b (startLineNumber r) (startColumn r)"


definition buffer_getRangeAt :: "TextBuffer \<Rightarrow> int \<Rightarrow> int \<Rightarrow> Range" where
  "buffer_getRangeAt b off len =
     (let s = buffer_getPositionAt b off; e = buffer_getPositionAt b (off + len)
      in newRange (lineNumber s) (column s) (lineNumber e) (column e))"

definition emptyDisposedTextBuffer :: TextBuffer where
  \<comment> \<open>\<open>new PieceTreeTextBuffer([], '', '\n', false, false, true, true)\<close>: no text, one empty line\<close>
  "emptyDisposedTextBuffer = \<lparr>firstLine = [], moreLines = [], bufferEOL = LF\<rparr>"

section \<open>Edit operations and the collaborators that are not among the sources\<close>

record ValidAnnotatedEditOperation =
  op_identifier :: "(int \<times> int) option"
  op_range :: Range
  op_text :: "jsstring option"
  op_forceMoveMarkers :: bool
  op_isAutoWhitespaceEdit :: bool
  op_isTracked :: bool

record ISingleEditOperation =
  raw_identifier :: "(int \<times> int) option"
  raw_range :: IRange
  raw_text :: "jsstring option"
  raw_forceMoveMarkers :: "bool option"
  raw_isAutoWhitespaceEdit :: "bool option"
  raw_isTracked :: "bool option"

datatype IIdentifiedSingleEditOperation =
    RawOperation ISingleEditOperation
  | ValidOperation ValidAnnotatedEditOperation  \<comment> \<open>\<open>instanceof ValidAnnotatedEditOperation\<close>\<close>

record IValidEditOperation =
  rev_identifier :: "(int \<times> int) option"
  rev_range :: Range
  rev_text :: jsstring

record IInternalModelContentChange =
  ic_range :: Range
  ic_rangeOffset :: int
  ic_rangeLength :: int
  ic_text :: jsstring
  ic_forceMoveMarkers :: bool

record ApplyEditsResult =
  reverseEdits :: "IValidEditOperation list option"
  result_changes :: "IInternalModelContentChange list"
  trimAutoWhitespaceLineNumbers :: "int list option"

text \<open>
  The parts of the repository that the text model calls and that are not among the
  sources are parameters of the model:
  \<^item> \<open>ext_createTextBuffer\<close>: the buffer that \<open>createTextBuffer(value)\<close> builds from a string;
  \<^item> \<open>ext_applyEdits\<close>: \<open>ITextBuffer.applyEdits\<close>, which changes the buffer and reports the
    changes;
  \<^item> \<open>ext_acceptReplace\<close>: what \<open>IntervalTree.acceptReplace\<close> does to one node of the tree;
  \<^item> \<open>ext_merge\<close>: \<open>InternalModelContentChangeEvent.merge\<close>.
\<close>

record Externals =
  ext_createTextBuffer :: "jsstring \<Rightarrow> TextBuffer"
  ext_applyEdits ::
    "TextBuffer \<Rightarrow> ValidAnnotatedEditOperation list \<Rightarrow> bool \<Rightarrow> ApplyEditsResult \<times> TextBuffer"
  ext_acceptReplace :: "int \<Rightarrow> int \<Rightarrow> int \<Rightarrow> bool \<Rightarrow> IntervalNode \<Rightarrow> IntervalNode"
  ext_merge ::
    "InternalModelContentChangeEvent \<Rightarrow> InternalModelContentChangeEvent
       \<Rightarrow> InternalModelContentChangeEvent"

section \<open>Reading the value\<close>






section \<open>Replacing the value, disposing\<close>

definition p_emitContentChangedEvent ::
  "Externals \<Rightarrow> ModelRawContentChangedEvent \<Rightarrow> IModelContentChangedEvent \<Rightarrow> TextModel \<Rightarrow> TextModel" where
  "p_emitContentChangedEvent ext rawChange change m =
     (if isDisposing m then m
      else m\<lparr>eventEmitter :=
               contentEmitter_fire (ext_merge ext)
                 \<lparr>rawContentChangedEvent = rawChange, contentChangedEvent = change\<rparr>
                 (eventEmitter m)\<rparr>)"

definition newModelRawContentChangedEvent :: "ModelRawChange list \<Rightarrow> ModelRawContentChangedEvent" where
  \<comment> \<open>Modelled from the spec: the class is not among the sources; the event holds the ordered
      raw line deltas, and the emitter sets its \<open>resultingSelection\<close> later.\<close>
  "newModelRawContentChangedEvent cs = \<lparr>rawChanges = cs, resultingSelection = None\<rparr>"




definition dispose :: "(TextModel \<Rightarrow> TextModel) \<Rightarrow> TextModel \<Rightarrow> TextModel" where
  \<comment> \<open>\<open>onWillDisposeListeners\<close> is what the listeners of \<open>onWillDispose\<close> do with the model
      when \<open>this._onWillDispose.fire()\<close> calls them.\<close>
  "dispose onWillDisposeListeners m =
     (let m1 = m\<lparr>isDisposing := True\<rparr>;
          m2 = onWillDisposeListeners m1;
          m3 = m2\<lparr>isDisposed := True\<rparr>;
          m4 = m3\<lparr>isDisposing := False\<rparr>
      in m4\<lparr>buffer := emptyDisposedTextBuffer\<rparr>)"


section \<open>Decorations\<close>

definition isClassNameChar :: "charCode \<Rightarrow> bool" where
  \<comment> \<open>the characters that \<open>/[^a-z0-9\-_]/gi\<close> keeps\<close>
  "isClassNameChar c =
     ((0x61 \<le> c \<and> c \<le> 0x7A) \<or> (0x41 \<le> c \<and> c \<le> 0x5A) \<or> (0x30 \<le> c \<and> c \<le> 0x39)
      \<or> c = 0x2D \<or> c = 0x5F)"

definition cleanClassName :: "jsstring \<Rightarrow> jsstring" where
  "cleanClassName s = map (\<lambda>c. if isClassNameChar c then c else 0x20) s"

definition cleanedOrNull :: "jsstring option \<Rightarrow> jsstring option" where
  \<comment> \<open>\<open>x ? cleanClassName(x) : null\<close>: the empty string is falsy\<close>
  "cleanedOrNull x = (case x of None \<Rightarrow> None | Some s \<Rightarrow> if s = [] then None else Some (cleanClassName s))"

definition messageOrNull :: "HoverMessage option \<Rightarrow> HoverMessage option" where
  \<comment> \<open>\<open>x || null\<close>: the empty string is falsy, an array is not\<close>
  "messageOrNull x = (case x of Some (MessageString []) \<Rightarrow> None | _ \<Rightarrow> x)"

definition orFalse :: "bool option \<Rightarrow> bool option" where
  \<comment> \<open>\<open>x || false\<close>\<close>
  "orFalse x = (case x of None \<Rightarrow> Some False | Some b \<Rightarrow> Some b)"

definition newModelDecorationOptions :: "IModelDecorationOptions \<Rightarrow> IModelDecorationOptions" where
  \<comment> \<open>the constructor of \<open>ModelDecorationOptions\<close>\<close>
  "newModelDecorationOptions options =
     \<lparr>isModelDecorationOptions = True,
      stickiness = Some (case stickiness options of None \<Rightarrow> AlwaysGrowsWhenTypingAtEdges | Some x \<Rightarrow> x),
      zIndex = Some (case zIndex options of Some (Num z) \<Rightarrow> Num z | _ \<Rightarrow> Num 0),
      className = cleanedOrNull (className options),
      hoverMessage = messageOrNull (hoverMessage options),
      glyphMarginHoverMessage = messageOrNull (glyphMarginHoverMessage options),
      isWholeLine = orFalse (isWholeLine options),
      showIfCollapsed = orFalse (showIfCollapsed options),
      collapseOnReplaceEdit = orFalse (collapseOnReplaceEdit options),
      glyphMarginClassName = cleanedOrNull (glyphMarginClassName options),
      linesDecorationsClassName = cleanedOrNull (linesDecorationsClassName options),
      firstLineDecorationClassName = cleanedOrNull (firstLineDecorationClassName options),
      marginClassName = cleanedOrNull (marginClassName options),
      inlineClassName = cleanedOrNull (inlineClassName options),
      inlineClassNameAffectsLetterSpacing = orFalse (inlineClassNameAffectsLetterSpacing options),
      beforeContentClassName = cleanedOrNull (beforeContentClassName options),
      afterContentClassName = cleanedOrNull (afterContentClassName options)\<rparr>"

definition p_normalizeOptions :: "IModelDecorationOptions \<Rightarrow> IModelDecorationOptions" where
  "p_normalizeOptions options =
     (if isModelDecorationOptions options then options else newModelDecorationOptions options)"

text \<open>
  Modelled from the spec: the members of \<open>IntervalNode\<close> and \<open>IntervalTree\<close> are not among
  the sources. A new node has the given id and no owner, options or range yet; \<open>reset\<close>
  stores the version stamp, the offsets and the range; \<open>setOptions\<close> stores the options;
  \<open>insert\<close> and \<open>delete\<close> add a node to the tree and take it out; \<open>search\<close> and
  \<open>collectNodesFromOwner\<close> answer with the nodes of the tree that an owner sees or owns.
\<close>

definition newIntervalNode :: "string \<Rightarrow> int \<Rightarrow> int \<Rightarrow> IntervalNode" where
  "newIntervalNode i s e =
     \<lparr>node_id = i, ownerId = 0, node_options = None, cachedVersionId = 0,
      cachedAbsoluteStart = s, cachedAbsoluteEnd = e, node_range = None\<rparr>"

definition node_reset :: "int \<Rightarrow> int \<Rightarrow> int \<Rightarrow> Range \<Rightarrow> IntervalNode \<Rightarrow> IntervalNode" where
  "node_reset v s e r n =
     n\<lparr>cachedVersionId := v, cachedAbsoluteStart := s, cachedAbsoluteEnd := e, node_range := Some r\<rparr>"

definition node_setOptions :: "IModelDecorationOptions \<Rightarrow> IntervalNode \<Rightarrow> IntervalNode" where
  "node_setOptions options n = n\<lparr>node_options := Some options\<rparr>"

definition tree_insert :: "string \<Rightarrow> string list \<Rightarrow> string list" where
  "tree_insert i t = t @ [i]"

definition tree_delete :: "string \<Rightarrow> string list \<Rightarrow> string list" where
  "tree_delete i t = removeAll i t"

definition tree_nodes :: "TextModel \<Rightarrow> IntervalNode list" where
  "tree_nodes m = List.map_filter (decorations m) (decorationsTree m)"

definition tree_search :: "TextModel \<Rightarrow> int \<Rightarrow> bool \<Rightarrow> IntervalNode list" where
  "tree_search m filterOwnerId filterOutValidation =
     filter (\<lambda>n. filterOwnerId = 0 \<or> ownerId n = 0 \<or> ownerId n = filterOwnerId) (tree_nodes m)"


definition digitChar :: "nat \<Rightarrow> char" where
  "digitChar d = char_of (48 + d)"

function decimal :: "nat \<Rightarrow> string" where
  "decimal n = (if n < 10 then [digitChar n] else decimal (n div 10) @ [digitChar (n mod 10)])"
  by pat_completeness auto
termination
  by (relation "measure id") auto

definition decorationIdOf :: "string \<Rightarrow> nat \<Rightarrow> string" where
  \<comment> \<open>the template string that joins the instance id, \<open>;\<close> and the number\<close>
  "decorationIdOf iid k = iid @ '';'' @ decimal k"

definition clampRelaxed :: "TextModel \<Rightarrow> int \<Rightarrow> int \<Rightarrow> error + int \<times> int" where
  \<comment> \<open>the clamping of one end of the range to the bounds of the buffer, which
      \<open>_validateRangeRelaxedNoAllocations\<close> writes out once for the start and once for the end\<close>
  "clampRelaxed m lineNo col =
     (let linesCount = buffer_getLineCount (buffer m)
      in if lineNo < 1 then Inr (1, 1)
         else if lineNo > linesCount then
           (case getLineMaxColumn m linesCount of Inl e \<Rightarrow> Inl e
            | Inr maxColumn \<Rightarrow> Inr (linesCount, maxColumn))
         else if col \<le> 1 then Inr (lineNo, 1)
         else (case getLineMaxColumn m lineNo of Inl e \<Rightarrow> Inl e
               | Inr maxColumn \<Rightarrow> Inr (lineNo, if col \<ge> maxColumn then maxColumn else col)))"

definition p_validateRangeRelaxedNoAllocations :: "TextModel \<Rightarrow> IRange \<Rightarrow> error + Range" where
  "p_validateRangeRelaxedNoAllocations m r =
     (case clampRelaxed m (floorOrOne (ir_startLineNumber r)) (floorOrOne (ir_startColumn r)) of
        Inl e \<Rightarrow> Inl e
      | Inr (sl, sc) \<Rightarrow>
          (case clampRelaxed m (floorOrOne (ir_endLineNumber r)) (floorOrOne (ir_endColumn r)) of
             Inl e \<Rightarrow> Inl e
           | Inr (el, ec) \<Rightarrow>
               if ir_startLineNumber r = Num (of_int sl) \<and> ir_startColumn r = Num (of_int sc)
                  \<and> ir_endLineNumber r = Num (of_int el) \<and> ir_endColumn r = Num (of_int ec)
                  \<and> ir_kind r = RangeInstance
               then Inr \<lparr>startLineNumber = sl, startColumn = sc,
                         endLineNumber = el, endColumn = ec\<rparr>
               else Inr (newRange sl sc el ec)))"

fun nextOldNode :: "(string \<rightharpoonup> IntervalNode) \<Rightarrow> string list \<Rightarrow> IntervalNode option \<times> string list" where
  \<comment> \<open>the \<open>do ... while (!node && oldDecorationIndex < oldDecorationsLen)\<close> loop: the first
      old id that names a node, and the ids after it\<close>
  "nextOldNode d [] = (None, [])"
| "nextOldNode d (i # is) = (case d i of Some n \<Rightarrow> (Some n, is) | None \<Rightarrow> nextOldNode d is)"

lemma nextOldNode_length: "length (snd (nextOldNode d is)) \<le> length is"
  by (induction "is") (auto split: option.splits)

definition takeOldNode :: "string list \<Rightarrow> TextModel \<Rightarrow> IntervalNode option \<times> string list \<times> TextModel" where
  \<comment> \<open>steps (1) and (2) of the loop body\<close>
  "takeOldNode olds m =
     (if olds = [] then (None, olds, m)
      else (case nextOldNode (decorations m) olds of
              (None, rest) \<Rightarrow> (None, rest, m)
            | (Some n, rest) \<Rightarrow>
                (Some n, rest,
                 m\<lparr>decorationsTree := tree_delete (node_id n) (decorationsTree m),
                   onDidChangeDecorations := decorationsEmitter_fire (onDidChangeDecorations m)\<rparr>)))"

definition placeNewDecoration ::
  "int \<Rightarrow> IntervalNode option \<Rightarrow> IModelDeltaDecoration \<Rightarrow> TextModel
     \<Rightarrow> (error + string) \<times> TextModel" where
  \<comment> \<open>steps (3) and (4) of the loop body; the answer is \<open>node.id\<close>. The identifier
      \<open>versionId\<close>, the first argument of \<open>node.reset\<close>, has no declaration in the scope
      of \<open>_deltaDecorationsImpl\<close>: the body throws there, after \<open>node.ownerId\<close> has
      been assigned.\<close>
  "placeNewDecoration owner node newDecoration m =
     (let (n, m1) =
        (case node of
           Some n \<Rightarrow> (n, m)
         | None \<Rightarrow>
             (let internalDecorationId = Suc (lastDecorationId m);
                  decorationId = decorationIdOf (instanceId m) internalDecorationId;
                  n = newIntervalNode decorationId 0 0
              in (n, m\<lparr>lastDecorationId := internalDecorationId,
                       decorations := (decorations m)(decorationId \<mapsto> n)\<rparr>)))
      in case p_validateRangeRelaxedNoAllocations m1 (dd_range newDecoration) of
           Inl e \<Rightarrow> (Inl e, m1)
         | Inr r \<Rightarrow>
             (let options = p_normalizeOptions (dd_options newDecoration);
                  startOffset = buffer_getOffsetAt (buffer m1) (startLineNumber r) (startColumn r);
                  endOffset = buffer_getOffsetAt (buffer m1) (endLineNumber r) (endColumn r);
                  n1 = n\<lparr>ownerId := owner\<rparr>;
                  m2 = m1\<lparr>decorations := (decorations m1)(node_id n \<mapsto> n1)\<rparr>
              in case unboundIdentifier ''versionId'' of
                   Inl e \<Rightarrow> (Inl e, m2)
                 | Inr versionIdValue \<Rightarrow>
                     (let n' = node_setOptions options (node_reset versionIdValue startOffset endOffset r n1)
                      in (Inr (node_id n'),
                          m2\<lparr>decorations := (decorations m2)(node_id n' \<mapsto> n'),
                             onDidChangeDecorations := decorationsEmitter_fire (onDidChangeDecorations m2),
                             decorationsTree := tree_insert (node_id n') (decorationsTree m2)\<rparr>))))"

lemma takeOldNode_length: "length (fst (snd (takeOldNode olds m))) \<le> length olds"
  using nextOldNode_length [of "decorations m" olds]
  by (auto simp: takeOldNode_def split: prod.splits option.splits)

lemma takeOldNode_shorter: "olds \<noteq> [] \<Longrightarrow> length (fst (snd (takeOldNode olds m))) < length olds"
proof (cases olds)
  case (Cons i "is")
  assume "olds \<noteq> []"
  show ?thesis
    using nextOldNode_length [of "decorations m" "is"] Cons
    by (auto simp: takeOldNode_def split: prod.splits option.splits)
qed simp

function deltaDecorationsLoop ::
  "int \<Rightarrow> string list \<Rightarrow> IModelDeltaDecoration list \<Rightarrow> string list \<Rightarrow> TextModel
     \<Rightarrow> (error + string list) \<times> TextModel" where
  "deltaDecorationsLoop owner olds news result m =
     (if olds = [] \<and> news = [] then (Inr result, m)
      else
        (case news of
           newDecoration # news' \<Rightarrow>
             (case placeNewDecoration owner (fst (takeOldNode olds m)) newDecoration
                     (snd (snd (takeOldNode olds m))) of
                (Inl e, m') \<Rightarrow> (Inl e, m')
              | (Inr i, m') \<Rightarrow>
                  deltaDecorationsLoop owner (fst (snd (takeOldNode olds m))) news'
                    (result @ [i]) m')
         | [] \<Rightarrow>
             deltaDecorationsLoop owner (fst (snd (takeOldNode olds m))) [] result
               (case fst (takeOldNode olds m) of
                  None \<Rightarrow> snd (snd (takeOldNode olds m))
                | Some n \<Rightarrow>
                    (snd (snd (takeOldNode olds m)))
                      \<lparr>decorations := (decorations (snd (snd (takeOldNode olds m))))(node_id n := None)\<rparr>)))"
  by pat_completeness auto

termination
  by (relation "measure (\<lambda>(owner, olds, news, result, m). length olds + length news)")
     (auto simp: le_imp_less_Suc takeOldNode_length takeOldNode_shorter)

definition p_deltaDecorationsImpl ::
  "int \<Rightarrow> string list \<Rightarrow> IModelDeltaDecoration list \<Rightarrow> TextModel
     \<Rightarrow> (error + string list) \<times> TextModel" where
  "p_deltaDecorationsImpl owner oldDecorationsIds newDecorations m =
     deltaDecorationsLoop owner oldDecorationsIds newDecorations [] m"

definition deltaDecorations ::
  "string list option \<Rightarrow> IModelDeltaDecoration list \<Rightarrow> int \<Rightarrow> TextModel
     \<Rightarrow> (error + string list) \<times> TextModel" where
  \<comment> \<open>\<open>None\<close> is a first argument that is \<open>null\<close> or \<open>undefined\<close>; the deferred scope is
      closed in the \<open>finally\<close> block, also when the body has thrown\<close>
  "deltaDecorations oldDecorations newDecorations owner m =
     (case p_assertNotDisposed m of Inl e \<Rightarrow> (Inl e, m)
      | Inr _ \<Rightarrow>
        (let olds = (case oldDecorations of None \<Rightarrow> [] | Some l \<Rightarrow> l)
         in if olds = [] \<and> newDecorations = [] then (Inr [], m)
            else
              (let m1 = m\<lparr>onDidChangeDecorations :=
                            decorationsEmitter_beginDeferredEmit (onDidChangeDecorations m)\<rparr>;
                   (r, m2) = p_deltaDecorationsImpl owner olds newDecorations m1
               in (r, m2\<lparr>onDidChangeDecorations :=
                            decorationsEmitter_endDeferredEmit (onDidChangeDecorations m2)\<rparr>))))"


definition getDecorationOptions :: "TextModel \<Rightarrow> string \<Rightarrow> error + IModelDecorationOptions option" where
  \<comment> \<open>\<open>None\<close> is the answer \<open>null\<close>\<close>
  "getDecorationOptions m decorationId =
     (case decorations m decorationId of None \<Rightarrow> Inr None | Some n \<Rightarrow> Inr (node_options n))"

definition p_ensureNodesHaveRanges :: "IntervalNode list \<Rightarrow> TextModel \<Rightarrow> IntervalNode list \<times> TextModel" where
  "p_ensureNodesHaveRanges nodes m =
     (let fill = (\<lambda>n. if node_range n = None
                       then n\<lparr>node_range := Some (buffer_getRangeAt (buffer m) (cachedAbsoluteStart n)
                                                   (cachedAbsoluteEnd n - cachedAbsoluteStart n))\<rparr>
                       else n)
      in (map fill nodes,
          foldl (\<lambda>m' n. m'\<lparr>decorations := (decorations m')(node_id n \<mapsto> fill n)\<rparr>) m nodes))"

definition getAllDecorations :: "TextModel \<Rightarrow> int \<Rightarrow> bool \<Rightarrow> IntervalNode list \<times> TextModel" where
  "getAllDecorations m owner filterOutValidation =
     p_ensureNodesHaveRanges (tree_search m owner filterOutValidation) m"

section \<open>Editing\<close>

definition orFalseB :: "bool option \<Rightarrow> bool" where
  "orFalseB x = (case x of None \<Rightarrow> False | Some b \<Rightarrow> b)"

definition p_validateEditOperation ::
  "TextModel \<Rightarrow> IIdentifiedSingleEditOperation \<Rightarrow> error + ValidAnnotatedEditOperation" where
  "p_validateEditOperation m rawOperation =
     (case rawOperation of
        ValidOperation v \<Rightarrow> Inr v
      | RawOperation r \<Rightarrow>
          (case validateRange m (raw_range r) of Inl e \<Rightarrow> Inl e
           | Inr validated \<Rightarrow>
               Inr \<lparr>op_identifier = raw_identifier r, op_range = validated, op_text = raw_text r,
                    op_forceMoveMarkers = orFalseB (raw_forceMoveMarkers r),
                    op_isAutoWhitespaceEdit = orFalseB (raw_isAutoWhitespaceEdit r),
                    op_isTracked = orFalseB (raw_isTracked r)\<rparr>))"

fun p_validateEditOperations ::
  "TextModel \<Rightarrow> IIdentifiedSingleEditOperation list \<Rightarrow> error + ValidAnnotatedEditOperation list" where
  "p_validateEditOperations m [] = Inr []"
| "p_validateEditOperations m (rawOperation # rest) =
     (case p_validateEditOperation m rawOperation of Inl e \<Rightarrow> Inl e
      | Inr v \<Rightarrow>
          (case p_validateEditOperations m rest of Inl e \<Rightarrow> Inl e | Inr vs \<Rightarrow> Inr (v # vs)))"

fun lineChangedDeltas :: "TextModel \<Rightarrow> int \<Rightarrow> int \<Rightarrow> int list \<Rightarrow> error + ModelRawChange list" where
  \<comment> \<open>the loop \<open>for (let j = editingLinesCnt; j >= 0; j--)\<close>, over the values of \<open>j\<close>;
      \<open>base\<close> is \<open>newLineCount - lineCount - changeLineCountDelta\<close>\<close>
  "lineChangedDeltas m startLineNo base [] = Inr []"
| "lineChangedDeltas m startLineNo base (j # js) =
     (case getLineContent m (base + (startLineNo + j)) of Inl e \<Rightarrow> Inl e
      | Inr content \<Rightarrow>
          (case lineChangedDeltas m startLineNo base js of Inl e \<Rightarrow> Inl e
           | Inr ds \<Rightarrow> Inr (ModelRawLineChanged (startLineNo + j) content # ds)))"

fun insertedLines :: "TextModel \<Rightarrow> int list \<Rightarrow> error + jsstring list" where
  \<comment> \<open>the loop that reads the inserted lines, over the line numbers\<close>
  "insertedLines m [] = Inr []"
| "insertedLines m (lineNo # rest) =
     (case getLineContent m lineNo of Inl e \<Rightarrow> Inl e
      | Inr content \<Rightarrow>
          (case insertedLines m rest of Inl e \<Rightarrow> Inl e | Inr ls \<Rightarrow> Inr (content # ls)))"

definition tree_acceptReplace :: "Externals \<Rightarrow> int \<Rightarrow> int \<Rightarrow> int \<Rightarrow> bool \<Rightarrow> TextModel \<Rightarrow> TextModel" where
  "tree_acceptReplace ext off len newLen force m =
     m\<lparr>decorations :=
         (\<lambda>i. if i \<in> set (decorationsTree m)
              then map_option (ext_acceptReplace ext off len newLen force) (decorations m i)
              else decorations m i),
       callLog := callLog m @ [TreeAcceptReplace off len newLen force]\<rparr>"

definition rawDeltasOfChange ::
  "TextModel \<Rightarrow> int \<Rightarrow> int \<Rightarrow> int \<Rightarrow> IInternalModelContentChange
     \<Rightarrow> error + ModelRawChange list" where
  \<comment> \<open>the raw line deltas that one iteration of the loop over \<open>contentChanges\<close> pushes\<close>
  "rawDeltasOfChange m newLineCount lineCount eolCount change =
     (let startLineNo = startLineNumber (ic_range change);
          endLineNo = endLineNumber (ic_range change);
          deletingLinesCnt = endLineNo - startLineNo;
          insertingLinesCnt = eolCount;
          editingLinesCnt = min deletingLinesCnt insertingLinesCnt;
          changeLineCountDelta = insertingLinesCnt - deletingLinesCnt
      in case lineChangedDeltas m startLineNo (newLineCount - lineCount - changeLineCountDelta)
                (rev [0..editingLinesCnt]) of
           Inl e \<Rightarrow> Inl e
         | Inr changed \<Rightarrow>
             (let deleted =
                    (if editingLinesCnt < deletingLinesCnt
                     then [ModelRawLinesDeleted (startLineNo + editingLinesCnt + 1) endLineNo]
                     else [])
              in if editingLinesCnt < insertingLinesCnt then
                   (let spliceLineNumber = startLineNo + editingLinesCnt;
                        cnt = insertingLinesCnt - editingLinesCnt;
                        fromLineNumber = newLineCount - lineCount - cnt + spliceLineNumber + 1
                    in case insertedLines m (map (\<lambda>i. fromLineNumber + i) [0..cnt - 1]) of
                         Inl e \<Rightarrow> Inl e
                       | Inr newLines \<Rightarrow>
                           Inr (changed @ deleted @
                                [ModelRawLinesInserted (spliceLineNumber + 1)
                                   (startLineNo + insertingLinesCnt) newLines]))
                 else Inr (changed @ deleted)))"

text \<open>
  The loop over \<open>contentChanges\<close>. Its first statement calls \<open>countEOL\<close>, a name that
  \<open>textModel.ts\<close> neither declares nor imports: the evaluation of the identifier throws
  before \<open>_onDidChangeDecorations.fire()\<close> and \<open>_decorationsTree.acceptReplace\<close> are
  reached. The rest of the body is written as the source has it.
\<close>

fun contentChangesLoop ::
  "Externals \<Rightarrow> int \<Rightarrow> IInternalModelContentChange list \<Rightarrow> int \<Rightarrow> ModelRawChange list \<Rightarrow> TextModel
     \<Rightarrow> (error + ModelRawChange list) \<times> TextModel" where
  "contentChangesLoop ext newLineCount [] lineCount rawContentChanges m = (Inr rawContentChanges, m)"
| "contentChangesLoop ext newLineCount (change # rest) lineCount rawContentChanges m =
     (case (unboundIdentifier ''countEOL'' :: error + (jsstring \<Rightarrow> int \<times> int \<times> int)) of
        Inl e \<Rightarrow> (Inl e, m)
      | Inr countEOL \<Rightarrow>
          (let (eolCount, firstLineLength, lastLineLength) = countEOL (ic_text change);
               m1 = m\<lparr>onDidChangeDecorations := decorationsEmitter_fire (onDidChangeDecorations m)\<rparr>;
               m2 = tree_acceptReplace ext (ic_rangeOffset change) (ic_rangeLength change)
                      (int (length (ic_text change))) (ic_forceMoveMarkers change) m1
           in case rawDeltasOfChange m2 newLineCount lineCount eolCount change of
                Inl e \<Rightarrow> (Inl e, m2)
              | Inr deltas \<Rightarrow>
                  contentChangesLoop ext newLineCount rest
                    (lineCount + (eolCount
                                   - (endLineNumber (ic_range change) - startLineNumber (ic_range change))))
                    (rawContentChanges @ deltas) m2))"

definition toModelContentChange :: "IInternalModelContentChange \<Rightarrow> IModelContentChange" where
  \<comment> \<open>the same object, seen as an \<open>IModelContentChange\<close>\<close>
  "toModelContentChange c =
     \<lparr>change_range = ic_range c, rangeOffset = ic_rangeOffset c, rangeLength = ic_rangeLength c,
      change_text = ic_text c, forceMoveMarkers = Some (ic_forceMoveMarkers c)\<rparr>"

definition p_doApplyEdits ::
  "Externals \<Rightarrow> ValidAnnotatedEditOperation list \<Rightarrow> TextModel
     \<Rightarrow> (error + IValidEditOperation list option) \<times> TextModel" where
  \<comment> \<open>the answer \<open>None\<close> is \<open>undefined\<close>\<close>
  "p_doApplyEdits ext rawOperations m =
     (let oldLineCount = buffer_getLineCount (buffer m);
          (result, buffer') = ext_applyEdits ext (buffer m) rawOperations (trimAutoWhitespace m);
          m1 = m\<lparr>buffer := buffer', callLog := callLog m @ [BufferApplyEdits]\<rparr>;
          newLineCount = buffer_getLineCount (buffer m1);
          contentChanges = result_changes result;
          m2 = m1\<lparr>trimAutoWhitespaceLines := trimAutoWhitespaceLineNumbers result\<rparr>
      in if contentChanges \<noteq> [] then
           (case contentChangesLoop ext newLineCount contentChanges oldLineCount [] m2 of
              (Inl e, m3) \<Rightarrow> (Inl e, m3)
            | (Inr rawContentChanges, m3) \<Rightarrow>
                (Inr (reverseEdits result),
                 p_emitContentChangedEvent ext
                   (newModelRawContentChangedEvent rawContentChanges)
                   \<lparr>changes = map toModelContentChange contentChanges, isFlush = False,
                    versionId = None\<rparr>
                   m3))
         else (Inr (reverseEdits result), m2))"

definition applyEdits ::
  "Externals \<Rightarrow> IIdentifiedSingleEditOperation list \<Rightarrow> TextModel
     \<Rightarrow> (error + IValidEditOperation list option) \<times> TextModel" where
  "applyEdits ext rawOperations m =
     (let m1 = m\<lparr>onDidChangeDecorations :=
                   decorationsEmitter_beginDeferredEmit (onDidChangeDecorations m)\<rparr>;
          m2 = m1\<lparr>eventEmitter := contentEmitter_beginDeferredEmit (eventEmitter m1)\<rparr>;
          (r, m3) = (case p_validateEditOperations m2 rawOperations of
                       Inl e \<Rightarrow> (Inl e, m2)
                     | Inr operations \<Rightarrow> p_doApplyEdits ext operations m2);
          m4 = m3\<lparr>eventEmitter := contentEmitter_endDeferredEmit None (eventEmitter m3)\<rparr>
      in (r, m4\<lparr>onDidChangeDecorations :=
                   decorationsEmitter_endDeferredEmit (onDidChangeDecorations m4)\<rparr>))"

section \<open>Predicates and example models used by the properties\<close>

fun hasAdjacentHighSurrogates :: "jsstring \<Rightarrow> bool" where
  "hasAdjacentHighSurrogates (a # b # r) =
     ((isHighSurrogate a \<and> isHighSurrogate b) \<or> hasAdjacentHighSurrogates (b # r))"
| "hasAdjacentHighSurrogates _ = False"

definition noAdjacentHighSurrogates :: "TextBuffer \<Rightarrow> bool" where
  "noAdjacentHighSurrogates b = list_all (\<lambda>l. \<not> hasAdjacentHighSurrogates l) (bufferLines b)"

definition settled :: "TextModel \<Rightarrow> Position \<Rightarrow> bool" where
  "settled m q =
     (1 \<le> lineNumber q \<and> lineNumber q \<le> buffer_getLineCount (buffer m) \<and> 1 \<le> column q
      \<and> column q \<le> buffer_getLineLength (buffer m) (lineNumber q) + 1
      \<and> (column q = 1 \<or> column q = buffer_getLineLength (buffer m) (lineNumber q) + 1
          \<or> \<not> isHighSurrogate (buffer_getLineCharCode (buffer m) (lineNumber q) (column q - 2))))"

definition newDidChangeContentEmitter :: DidChangeContentEmitter where
  "newDidChangeContentEmitter = \<lparr>deferredCnt = 0, deferredEvent = None, fired = []\<rparr>"

definition newDidChangeDecorationsEmitter :: DidChangeDecorationsEmitter where
  "newDidChangeDecorationsEmitter = \<lparr>dec_deferredCnt = 0, shouldFire = False, decorationsFired = 0\<rparr>"

definition newTextModel :: "TextBuffer \<Rightarrow> bool \<Rightarrow> string \<Rightarrow> TextModel" where
  "newTextModel textBuffer trim iid =
     \<lparr>buffer = textBuffer, trimAutoWhitespace = trim, isDisposed = False, isDisposing = False,
      instanceId = iid, lastDecorationId = 0, decorations = Map.empty, decorationsTree = [],
      trimAutoWhitespaceLines = None, eventEmitter = newDidChangeContentEmitter,
      onDidChangeDecorations = newDidChangeDecorationsEmitter, callLog = []\<rparr>"

definition loneSurrogatesModel :: TextModel where
  "loneSurrogatesModel =
     newTextModel \<lparr>firstLine = [0xD800, 0xD800, 0xDC00], moreLines = [], bufferEOL = LF\<rparr> True ''a''"

definition emojiModel :: TextModel where
  "emojiModel =
     newTextModel \<lparr>firstLine = [0x61, 0xD83D, 0xDE00, 0x62], moreLines = [[0x63, 0x64]], bufferEOL = LF\<rparr> True ''a''"

definition insideSurrogatePair :: "TextBuffer \<Rightarrow> int \<Rightarrow> int \<Rightarrow> bool" where
  "insideSurrogatePair b lineNo col =
     (1 < col \<and> col \<le> buffer_getLineLength b lineNo
      \<and> isHighSurrogate (buffer_getLineCharCode b lineNo (col - 2))
      \<and> isLowSurrogate (buffer_getLineCharCode b lineNo (col - 1)))"

definition withinBounds :: "TextModel \<Rightarrow> Position \<Rightarrow> bool" where
  "withinBounds m q =
     (1 \<le> lineNumber q \<and> lineNumber q \<le> buffer_getLineCount (buffer m) \<and> 1 \<le> column q
      \<and> column q \<le> buffer_getLineLength (buffer m) (lineNumber q) + 1)"

definition flaggedStart :: "TextModel \<Rightarrow> int \<Rightarrow> int \<Rightarrow> bool" where
  "flaggedStart m sl sc = (sc > 1 \<and> isHighSurrogate (buffer_getLineCharCode (buffer m) sl (sc - 2)))"

definition flaggedEnd :: "TextModel \<Rightarrow> int \<Rightarrow> int \<Rightarrow> bool" where
  "flaggedEnd m el ec = (ec > 1 \<and> ec \<le> buffer_getLineLength (buffer m) el
                           \<and> isHighSurrogate (buffer_getLineCharCode (buffer m) el (ec - 2)))"









definition mergeEvents ::
  "InternalModelContentChangeEvent \<Rightarrow> InternalModelContentChangeEvent \<Rightarrow> InternalModelContentChangeEvent" where
  \<comment> \<open>Modelled from the spec: a merge function for the examples; the merged event covers the
      union of the changes: the raw line deltas and the flat changes of the first event,
      then those of the second.\<close>
  "mergeEvents a b =
     \<lparr>rawContentChangedEvent =
        \<lparr>rawChanges = rawChanges (rawContentChangedEvent a) @ rawChanges (rawContentChangedEvent b),
         resultingSelection = resultingSelection (rawContentChangedEvent b)\<rparr>,
      contentChangedEvent =
        \<lparr>changes = changes (contentChangedEvent a) @ changes (contentChangedEvent b),
         isFlush = (isFlush (contentChangedEvent a) \<or> isFlush (contentChangedEvent b)),
         versionId = versionId (contentChangedEvent b)\<rparr>\<rparr>"

fun splitLF :: "jsstring \<Rightarrow> jsstring list" where
  "splitLF [] = [[]]"
| "splitLF (c # cs) =
     (if c = 0x0A then [] # splitLF cs
      else (case splitLF cs of [] \<Rightarrow> [[c]] | l # ls \<Rightarrow> (c # l) # ls))"

definition exampleCreateTextBuffer :: "jsstring \<Rightarrow> TextBuffer" where
  \<comment> \<open>Modelled from the spec: a buffer built from a complete string, for the examples:
      the lines are the pieces of the string between its line feeds.\<close>
  "exampleCreateTextBuffer s =
     (case splitLF s of
        [] \<Rightarrow> \<lparr>firstLine = [], moreLines = [], bufferEOL = LF\<rparr>
      | l # ls \<Rightarrow> \<lparr>firstLine = l, moreLines = ls, bufferEOL = LF\<rparr>)"

definition replaceInLines :: "jsstring list \<Rightarrow> ValidAnnotatedEditOperation \<Rightarrow> jsstring list" where
  "replaceInLines ls operation =
     (let r = op_range operation;
          txt = (case op_text operation of None \<Rightarrow> [] | Some t \<Rightarrow> t);
          before = take (nat (startColumn r - 1)) (ls ! nat (startLineNumber r - 1));
          after = drop (nat (endColumn r - 1)) (ls ! nat (endLineNumber r - 1));
          pieces = splitLF txt;
          middle = (if length pieces \<le> 1 then [before @ concat pieces @ after]
                    else (before @ hd pieces) # butlast (tl pieces) @ [last pieces @ after])
      in take (nat (startLineNumber r - 1)) ls @ middle @ drop (nat (endLineNumber r)) ls)"

definition exampleApplyEdits ::
  "TextBuffer \<Rightarrow> ValidAnnotatedEditOperation list \<Rightarrow> bool \<Rightarrow> ApplyEditsResult \<times> TextBuffer" where
  \<comment> \<open>Modelled from the spec: a buffer edit for the examples, for operations that come in
      document order and do not overlap: the last operation is applied first; one change
      per operation is reported, with the offsets of its range in the buffer before the
      edit; the reverse edits are discarded.\<close>
  "exampleApplyEdits b operations recordTrimAutoWhitespace =
     (\<lparr>reverseEdits = None,
       result_changes =
         map (\<lambda>operation.
               \<lparr>ic_range = op_range operation,
                ic_rangeOffset = buffer_getOffsetAt b (startLineNumber (op_range operation))
                                   (startColumn (op_range operation)),
                ic_rangeLength = buffer_getValueLengthInRange b (op_range operation),
                ic_text = (case op_text operation of None \<Rightarrow> [] | Some t \<Rightarrow> t),
                ic_forceMoveMarkers = op_forceMoveMarkers operation\<rparr>)
             (rev operations),
       trimAutoWhitespaceLineNumbers = None\<rparr>,
      (case foldl replaceInLines (bufferLines b) (rev operations) of
         [] \<Rightarrow> b\<lparr>firstLine := [], moreLines := []\<rparr>
       | l # ls \<Rightarrow> b\<lparr>firstLine := l, moreLines := ls\<rparr>))"

definition exampleAcceptReplace :: "int \<Rightarrow> int \<Rightarrow> int \<Rightarrow> bool \<Rightarrow> IntervalNode \<Rightarrow> IntervalNode" where
  \<comment> \<open>Modelled from the spec: for the examples; a node entirely after the edit shifts by
      \<open>newLength - length\<close>, a node entirely before it is unaffected.\<close>
  "exampleAcceptReplace off len newLen force n =
     (if off + len < cachedAbsoluteStart n
      then n\<lparr>cachedAbsoluteStart := cachedAbsoluteStart n + (newLen - len),
             cachedAbsoluteEnd := cachedAbsoluteEnd n + (newLen - len), node_range := None\<rparr>
      else n)"

definition exampleExternals :: Externals where
  "exampleExternals =
     \<lparr>ext_createTextBuffer = exampleCreateTextBuffer, ext_applyEdits = exampleApplyEdits,
      ext_acceptReplace = exampleAcceptReplace, ext_merge = mergeEvents\<rparr>"

definition exampleOptions :: IModelDecorationOptions where
  "exampleOptions =
     \<lparr>isModelDecorationOptions = False, stickiness = Some NeverGrowsWhenTypingAtEdges,
      zIndex = None, className = Some [0x61, 0x2E, 0x62], hoverMessage = None,
      glyphMarginHoverMessage = None, isWholeLine = None, showIfCollapsed = None,
      collapseOnReplaceEdit = None, glyphMarginClassName = None,
      linesDecorationsClassName = None, firstLineDecorationClassName = None,
      marginClassName = None, inlineClassName = None,
      inlineClassNameAffectsLetterSpacing = None, beforeContentClassName = None,
      afterContentClassName = None\<rparr>"




definition abModel :: TextModel where
  \<comment> \<open>the document \<open>ab\<close>, line feed, \<open>cd\<close>\<close>
  "abModel =
     newTextModel \<lparr>firstLine = [0x61, 0x62], moreLines = [[0x63, 0x64]], bufferEOL = LF\<rparr> True ''a''"

definition insertAt :: "int \<Rightarrow> int \<Rightarrow> jsstring \<Rightarrow> IIdentifiedSingleEditOperation" where
  "insertAt l c s =
     RawOperation
       \<lparr>raw_identifier = None,
        raw_range = \<lparr>ir_startLineNumber = Num (of_int l), ir_startColumn = Num (of_int c),
                     ir_endLineNumber = Num (of_int l), ir_endColumn = Num (of_int c),
                     ir_kind = PlainObject\<rparr>,
        raw_text = Some s, raw_forceMoveMarkers = None, raw_isAutoWhitespaceEdit = None,
        raw_isTracked = None\<rparr>"

definition decorationAt :: "int \<Rightarrow> int \<Rightarrow> int \<Rightarrow> int \<Rightarrow> IModelDeltaDecoration" where
  \<comment> \<open>a descriptor with a plain range object and the options of the examples\<close>
  "decorationAt sl sc el ec =
     \<lparr>dd_range = \<lparr>ir_startLineNumber = Num (of_int sl), ir_startColumn = Num (of_int sc),
                  ir_endLineNumber = Num (of_int el), ir_endColumn = Num (of_int ec),
                  ir_kind = PlainObject\<rparr>,
      dd_options = exampleOptions\<rparr>"

definition failedDecoration :: TextModel where
  \<comment> \<open>the state that the call \<open>deltaDecorations([], [d], 7)\<close> leaves behind on
      \<open>emojiModel\<close>: a node without range and options in the dictionary, none in the tree\<close>
  "failedDecoration =
     emojiModel\<lparr>lastDecorationId := 1,
       decorations := [''a;1'' \<mapsto>
          \<lparr>node_id = ''a;1'', ownerId = 7, node_options = None, cachedVersionId = 0,
           cachedAbsoluteStart = 0, cachedAbsoluteEnd = 0, node_range = None\<rparr>]\<rparr>"

definition insertedX :: ValidAnnotatedEditOperation where
  \<comment> \<open>the validated form of \<open>insertAt 1 2 [0x58]\<close>\<close>
  "insertedX =
     \<lparr>op_identifier = None,
      op_range = \<lparr>startLineNumber = 1, startColumn = 2, endLineNumber = 1, endColumn = 2\<rparr>,
      op_text = Some [0x58], op_forceMoveMarkers = False,
      op_isAutoWhitespaceEdit = False, op_isTracked = False\<rparr>"

definition editedOnce :: TextModel where
  \<comment> \<open>\<open>abModel\<close> after \<open>X\<close> has been inserted at (1,2)\<close>
  "editedOnce =
     abModel\<lparr>buffer := \<lparr>firstLine = [0x61, 0x58, 0x62], moreLines = [[0x63, 0x64]], bufferEOL = LF\<rparr>,
              callLog := [BufferApplyEdits]\<rparr>"

definition editedTwice :: TextModel where
  \<comment> \<open>\<open>editedOnce\<close> after \<open>Y\<close> has been inserted at (2,1)\<close>
  "editedTwice =
     abModel\<lparr>buffer := \<lparr>firstLine = [0x61, 0x58, 0x62], moreLines = [[0x59, 0x63, 0x64]], bufferEOL = LF\<rparr>,
              callLog := [BufferApplyEdits, BufferApplyEdits]\<rparr>"

section \<open>Properties of validation\<close>

lemma toInt32_integral: "of_int (toInt32 r) = r \<Longrightarrow> of_int \<lfloor>r\<rfloor> = r"
  by (metis floor_of_int)

lemma toInt32_small: "1 \<le> i \<Longrightarrow> i < 2 ^ 31 \<Longrightarrow> toInt32 (of_int i) = i"
  by (simp add: toInt32_def Let_def)

lemma no_adjacent_nth:
  "\<not> hasAdjacentHighSurrogates l \<Longrightarrow> Suc i < length l \<Longrightarrow> isHighSurrogate (l ! i)
     \<Longrightarrow> \<not> isHighSurrogate (l ! Suc i)"
proof (induction l arbitrary: i rule: hasAdjacentHighSurrogates.induct)
  case (1 a b r)
  then show ?case by (cases i) auto
qed auto

lemma lineCount_pos: "1 \<le> buffer_getLineCount b"
  by (simp add: buffer_getLineCount_def bufferLines_def)

lemma getLineMaxColumn_ok:
  "\<not> isDisposed m \<Longrightarrow> 1 \<le> l \<Longrightarrow> l \<le> buffer_getLineCount (buffer m)
     \<Longrightarrow> getLineMaxColumn m l = Inr (buffer_getLineLength (buffer m) l + 1)"
  by (simp add: getLineMaxColumn_def getLineCount_def p_assertNotDisposed_def)

lemma lineLength_nonneg: "0 \<le> buffer_getLineLength b l"
  by (simp add: buffer_getLineLength_def)

lemma p_validatePosition_settled:
  assumes nd: "\<not> isDisposed m" and na: "noAdjacentHighSurrogates (buffer m)"
  shows "\<exists>q. p_validatePosition m a b SurrogatePairs = Inr q \<and> settled m q"
proof -
  let ?l = "floorOrOne a" and ?c = "floorOrOne b" and ?n = "buffer_getLineCount (buffer m)"
  have n1: "1 \<le> ?n" by (rule lineCount_pos)
  consider (lo) "?l < 1" | (hi) "?l \<ge> 1" "?l > ?n" | (c1) "?l \<ge> 1" "?l \<le> ?n" "?c \<le> 1"
    | (mx) "?l \<ge> 1" "?l \<le> ?n" "?c > 1" "?c \<ge> buffer_getLineLength (buffer m) ?l + 1"
    | (sg) "?l \<ge> 1" "?l \<le> ?n" "?c > 1" "?c < buffer_getLineLength (buffer m) ?l + 1"
           "isHighSurrogate (buffer_getLineCharCode (buffer m) ?l (?c - 2))"
    | (ok) "?l \<ge> 1" "?l \<le> ?n" "?c > 1" "?c < buffer_getLineLength (buffer m) ?l + 1"
           "\<not> isHighSurrogate (buffer_getLineCharCode (buffer m) ?l (?c - 2))"
    by linarith
  then show ?thesis
  proof cases
    case lo
    then show ?thesis using n1 lineLength_nonneg [of "buffer m" 1]
      by (simp add: p_validatePosition_def Let_def settled_def)
  next
    case hi
    then show ?thesis using n1 nd lineLength_nonneg [of "buffer m" ?n]
      by (simp add: p_validatePosition_def Let_def settled_def getLineMaxColumn_ok)
  next
    case c1
    then show ?thesis using nd lineLength_nonneg [of "buffer m" ?l]
      by (simp add: p_validatePosition_def Let_def settled_def)
  next
    case mx
    then show ?thesis using nd lineLength_nonneg [of "buffer m" ?l]
      by (simp add: p_validatePosition_def Let_def settled_def getLineMaxColumn_ok)
  next
    case sg
    have res: "p_validatePosition m a b SurrogatePairs = Inr \<lparr>lineNumber = ?l, column = ?c - 1\<rparr>"
      using sg nd by (simp add: p_validatePosition_def Let_def getLineMaxColumn_ok)
    have "?c - 1 = 1 \<or> \<not> isHighSurrogate (buffer_getLineCharCode (buffer m) ?l (?c - 1 - 2))"
    proof (cases "?c - 1 = 1")
      case False
      define line where "line = buffer_getLineContent (buffer m) ?l"
      define i where "i = nat (?c - 3)"
      have mem: "line \<in> set (bufferLines (buffer m))"
        using sg(1,2) unfolding line_def buffer_getLineContent_def buffer_getLineCount_def
        by (intro nth_mem) linarith
      have nadj: "\<not> hasAdjacentHighSurrogates line"
        using na mem by (auto simp: noAdjacentHighSurrogates_def list_all_iff)
      have len: "Suc i < length line"
        using sg(3,4) False unfolding i_def line_def buffer_getLineLength_def by linarith
      have idx: "nat (?c - 2) = Suc i" "nat (?c - 1 - 2) = i"
        using sg(3) False unfolding i_def by linarith+
      have "isHighSurrogate (line ! Suc i)"
        using sg(5) unfolding buffer_getLineCharCode_def line_def [symmetric] idx .
      then have "\<not> isHighSurrogate (line ! i)"
        using no_adjacent_nth [OF nadj len] by blast
      then show ?thesis
        unfolding buffer_getLineCharCode_def line_def [symmetric] idx by simp
    qed simp
    then show ?thesis unfolding res using sg
      by (auto simp: settled_def)
  next
    case ok
    then show ?thesis using nd
      by (simp add: p_validatePosition_def Let_def settled_def getLineMaxColumn_ok)
  qed
qed

lemma p_validatePosition_fixed:
  assumes nd: "\<not> isDisposed m" and st: "settled m q"
  shows "p_validatePosition m (Num (of_int (lineNumber q))) (Num (of_int (column q))) SurrogatePairs = Inr q"
  using assms
  by (cases q) (auto simp: settled_def p_validatePosition_def Let_def floorOrOne_def getLineMaxColumn_ok)

lemma p_isValidPosition_fixed:
  assumes nd: "\<not> isDisposed m" and st: "settled m q"
  shows "\<exists>b. p_isValidPosition m (Num (of_int (lineNumber q))) (Num (of_int (column q))) SurrogatePairs = Inr b"
  using assms
  by (auto simp: settled_def p_isValidPosition_def Let_def getLineMaxColumn_ok)

lemma validatePosition_fixed:
  assumes nd: "\<not> isDisposed m" and st: "settled m q"
  shows "validatePosition m (toIPosition q) = Inr q"
proof -
  obtain b where b: "p_isValidPosition m (Num (of_int (lineNumber q))) (Num (of_int (column q))) SurrogatePairs = Inr b"
    using p_isValidPosition_fixed [OF nd st] by blast
  show ?thesis
    using nd b p_validatePosition_fixed [OF nd st]
    by (cases b) (simp_all add: validatePosition_def toIPosition_def p_assertNotDisposed_def floorOrOne_def)
qed

lemma validatePosition_settled:
  assumes nd: "\<not> isDisposed m" and na: "noAdjacentHighSurrogates (buffer m)"
  shows "\<exists>q. validatePosition m p = Inr q \<and> settled m q"
proof (cases "ip_isPosition p \<and> p_isValidPosition m (ip_lineNumber p) (ip_column p) SurrogatePairs = Inr True")
  case True
  then have v: "p_isValidPosition m (ip_lineNumber p) (ip_column p) SurrogatePairs = Inr True"
    and ip: "ip_isPosition p" by simp_all
  obtain l c where lc: "ip_lineNumber p = Num l" "ip_column p = Num c"
    using v by (cases "ip_lineNumber p"; cases "ip_column p") (simp_all add: p_isValidPosition_def)
  have facts: "1 \<le> l" "1 \<le> c" "of_int (toInt32 l) = l" "of_int (toInt32 c) = c"
    "\<lfloor>l\<rfloor> \<le> buffer_getLineCount (buffer m)"
    using v unfolding lc p_isValidPosition_def by (auto split: if_splits)
  have il: "of_int \<lfloor>l\<rfloor> = l" and ic: "of_int \<lfloor>c\<rfloor> = c"
    using facts toInt32_integral by blast+
  have l1: "1 \<le> \<lfloor>l\<rfloor>" and c1: "1 \<le> \<lfloor>c\<rfloor>" using facts by linarith+
  have c_one: "c = 1 \<longleftrightarrow> \<lfloor>c\<rfloor> = 1" using ic by (metis floor_one of_int_1)
  have "settled m \<lparr>lineNumber = \<lfloor>l\<rfloor>, column = \<lfloor>c\<rfloor>\<rparr>"
    using v nd l1 c1 facts(5) c_one lineLength_nonneg [of "buffer m" "\<lfloor>l\<rfloor>"]
    unfolding lc p_isValidPosition_def settled_def
    by (auto simp: getLineMaxColumn_ok split: if_splits)
  then show ?thesis using nd v ip
    by (simp add: validatePosition_def p_assertNotDisposed_def lc floorOrOne_def)
next
  case False
  have "\<exists>b. p_isValidPosition m (ip_lineNumber p) (ip_column p) SurrogatePairs = Inr b"
    using nd
    by (cases "ip_lineNumber p"; cases "ip_column p")
       (auto simp: p_isValidPosition_def getLineMaxColumn_ok dest: toInt32_integral)
  then obtain b where b: "p_isValidPosition m (ip_lineNumber p) (ip_column p) SurrogatePairs = Inr b"
    by blast
  have "validatePosition m p = p_validatePosition m (ip_lineNumber p) (ip_column p) SurrogatePairs"
    using nd False b by (cases b) (auto simp: validatePosition_def p_assertNotDisposed_def)
  then show ?thesis using p_validatePosition_settled [OF nd na] by simp
qed

text \<open>
  Claim C7, as amended. \<open>validatePosition\<close> is idempotent on every model whose buffer has
  no line in which a high surrogate is directly followed by another high surrogate
  (well-formed UTF-16 text is such a buffer): for every argument, in bounds or not,
  inside a surrogate pair or not, validating the result of \<open>validatePosition\<close> again
  gives the same result. On a disposed model both sides are the same exception.
\<close>

theorem validatePosition_idempotent:
  assumes "noAdjacentHighSurrogates (buffer m)"
  shows "bindE (validatePosition m p) (\<lambda>q. validatePosition m (toIPosition q)) = validatePosition m p"
proof (cases "isDisposed m")
  case True
  then show ?thesis by (simp add: bindE_def validatePosition_def p_assertNotDisposed_def)
next
  case False
  then obtain q where q: "validatePosition m p = Inr q" "settled m q"
    using validatePosition_settled [OF False assms] by blast
  then show ?thesis using validatePosition_fixed [OF False q(2)] by (simp add: bindE_def)
qed

lemmas eval_simps = newTextModel_def newDidChangeContentEmitter_def newDidChangeDecorationsEmitter_def
  validatePosition_def p_validatePosition_def p_isValidPosition_def p_assertNotDisposed_def
  getLineMaxColumn_def getLineCount_def buffer_getLineCount_def buffer_getLineLength_def
  buffer_getLineContent_def buffer_getLineCharCode_def bufferLines_def floorOrOne_def toInt32_def
  isHighSurrogate_def isLowSurrogate_def toIPosition_def bindE_def Let_def

text \<open>
  Claim C7 as stated fails: in the line \<open>D800 D800 DC00\<close> the position (1,3) is moved
  back to (1,2), and (1,2), which follows a high surrogate again, is moved back to (1,1).
\<close>

theorem validatePosition_idempotent_counterexample:
  "validatePosition loneSurrogatesModel
       \<lparr>ip_lineNumber = Num 1, ip_column = Num 3, ip_isPosition = False\<rparr>
     = Inr \<lparr>lineNumber = 1, column = 2\<rparr>
   \<and> validatePosition loneSurrogatesModel (toIPosition \<lparr>lineNumber = 1, column = 2\<rparr>)
     = Inr \<lparr>lineNumber = 1, column = 1\<rparr>
   \<and> bindE (validatePosition loneSurrogatesModel
              \<lparr>ip_lineNumber = Num 1, ip_column = Num 3, ip_isPosition = False\<rparr>)
            (\<lambda>q. validatePosition loneSurrogatesModel (toIPosition q))
     \<noteq> validatePosition loneSurrogatesModel
          \<lparr>ip_lineNumber = Num 1, ip_column = Num 3, ip_isPosition = False\<rparr>"
  by (simp add: loneSurrogatesModel_def eval_simps)

theorem validatePosition_idempotent_witness:
  "noAdjacentHighSurrogates (buffer emojiModel)
   \<and> validatePosition emojiModel \<lparr>ip_lineNumber = Num 1, ip_column = Num 3, ip_isPosition = False\<rparr>
       = Inr \<lparr>lineNumber = 1, column = 2\<rparr>
   \<and> bindE (validatePosition emojiModel
              \<lparr>ip_lineNumber = Num 1, ip_column = Num 3, ip_isPosition = False\<rparr>)
            (\<lambda>q. validatePosition emojiModel (toIPosition q))
     = validatePosition emojiModel
          \<lparr>ip_lineNumber = Num 1, ip_column = Num 3, ip_isPosition = False\<rparr>"
proof -
  have na: "noAdjacentHighSurrogates (buffer emojiModel)"
    by (simp add: noAdjacentHighSurrogates_def emojiModel_def eval_simps)
  have v: "validatePosition emojiModel \<lparr>ip_lineNumber = Num 1, ip_column = Num 3, ip_isPosition = False\<rparr>
       = Inr \<lparr>lineNumber = 1, column = 2\<rparr>"
    by (simp add: emojiModel_def eval_simps)
  show ?thesis
    using na v validatePosition_idempotent [OF na] by blast
qed

lemma high_not_low: "isHighSurrogate c \<Longrightarrow> \<not> isLowSurrogate c"
proof
  assume h: "isHighSurrogate c" and l: "isLowSurrogate c"
  have "(0xDC00 :: 16 word) \<le> c" using l by (simp add: isLowSurrogate_def)
  moreover have "c \<le> 0xDBFF" using h by (simp add: isHighSurrogate_def)
  ultimately have "(0xDC00 :: 16 word) \<le> 0xDBFF" by (rule order_trans)
  then show False by simp
qed

lemma p_validatePosition_relaxed:
  assumes nd: "\<not> isDisposed m"
  shows "\<exists>q. p_validatePosition m a b Relaxed = Inr q \<and> withinBounds m q"
proof -
  let ?l = "floorOrOne a" and ?c = "floorOrOne b" and ?n = "buffer_getLineCount (buffer m)"
  have n1: "1 \<le> ?n" by (rule lineCount_pos)
  consider (lo) "?l < 1" | (hi) "?l \<ge> 1" "?l > ?n" | (c1) "?l \<ge> 1" "?l \<le> ?n" "?c \<le> 1"
    | (mx) "?l \<ge> 1" "?l \<le> ?n" "?c > 1" "?c \<ge> buffer_getLineLength (buffer m) ?l + 1"
    | (ok) "?l \<ge> 1" "?l \<le> ?n" "?c > 1" "?c < buffer_getLineLength (buffer m) ?l + 1"
    by linarith
  then show ?thesis
  proof cases
    case lo
    then show ?thesis using n1 lineLength_nonneg [of "buffer m" 1]
      by (simp add: p_validatePosition_def Let_def withinBounds_def)
  next
    case hi
    then show ?thesis using n1 nd lineLength_nonneg [of "buffer m" ?n]
      by (simp add: p_validatePosition_def Let_def withinBounds_def getLineMaxColumn_ok)
  next
    case c1
    then show ?thesis using nd lineLength_nonneg [of "buffer m" ?l]
      by (simp add: p_validatePosition_def Let_def withinBounds_def)
  next
    case mx
    then show ?thesis using nd lineLength_nonneg [of "buffer m" ?l]
      by (simp add: p_validatePosition_def Let_def withinBounds_def getLineMaxColumn_ok)
  next
    case ok
    then show ?thesis using nd
      by (simp add: p_validatePosition_def Let_def withinBounds_def getLineMaxColumn_ok)
  qed
qed

lemma not_flaggedStart: "\<not> flaggedStart m l c \<Longrightarrow> \<not> insideSurrogatePair (buffer m) l c"
  by (auto simp: flaggedStart_def insideSurrogatePair_def)

lemma not_flaggedEnd: "\<not> flaggedEnd m l c \<Longrightarrow> \<not> insideSurrogatePair (buffer m) l c"
  by (auto simp: flaggedEnd_def insideSurrogatePair_def)

lemma moved_back_outside:
  assumes "c > 1" "isHighSurrogate (buffer_getLineCharCode (buffer m) l (c - 2))"
  shows "\<not> insideSurrogatePair (buffer m) l (c - 1)"
proof -
  have "c - 1 - 1 = c - 2" by simp
  then show ?thesis using assms(2) high_not_low
    by (auto simp: insideSurrogatePair_def)
qed

lemma moved_forward_outside:
  assumes na: "noAdjacentHighSurrogates (buffer m)" and wb: "withinBounds m \<lparr>lineNumber = l, column = c\<rparr>"
    and fl: "flaggedEnd m l c"
  shows "\<not> insideSurrogatePair (buffer m) l (c + 1)"
proof -
  define line where "line = buffer_getLineContent (buffer m) l"
  define i where "i = nat (c - 2)"
  have mem: "line \<in> set (bufferLines (buffer m))"
    using wb unfolding line_def buffer_getLineContent_def buffer_getLineCount_def withinBounds_def
    by (intro nth_mem) (simp, linarith)
  have nadj: "\<not> hasAdjacentHighSurrogates line"
    using na mem by (auto simp: noAdjacentHighSurrogates_def list_all_iff)
  have c: "c > 1" "c \<le> int (length line)" "isHighSurrogate (line ! i)"
    using fl unfolding flaggedEnd_def buffer_getLineLength_def buffer_getLineCharCode_def line_def i_def
    by auto
  have len: "Suc i < length line" using c(1,2) unfolding i_def by linarith
  have idx: "nat (c + 1 - 2) = Suc i" using c(1) unfolding i_def by linarith
  have "\<not> isHighSurrogate (line ! Suc i)"
    using no_adjacent_nth [OF nadj len c(3)] .
  then show ?thesis
    unfolding insideSurrogatePair_def buffer_getLineCharCode_def line_def [symmetric] idx by simp
qed

lemma newRange_ends:
  assumes "P sl sc" "P el ec"
  shows "P (startLineNumber (newRange sl sc el ec)) (startColumn (newRange sl sc el ec))
       \<and> P (endLineNumber (newRange sl sc el ec)) (endColumn (newRange sl sc el ec))"
  using assms by (simp add: newRange_def)

lemma p_isValidPosition_total:
  assumes nd: "\<not> isDisposed m"
  shows "\<exists>b. p_isValidPosition m a c vt = Inr b"
  using nd
  by (cases a; cases c)
     (auto simp: p_isValidPosition_def getLineMaxColumn_ok dest: toInt32_integral)

lemma p_isValidRange_total:
  assumes nd: "\<not> isDisposed m"
  shows "\<exists>b. p_isValidRange m r vt = Inr b"
proof -
  obtain b1 where b1: "p_isValidPosition m (ir_startLineNumber r) (ir_startColumn r) Relaxed = Inr b1"
    using p_isValidPosition_total [OF nd] by blast
  obtain b2 where b2: "p_isValidPosition m (ir_endLineNumber r) (ir_endColumn r) Relaxed = Inr b2"
    using p_isValidPosition_total [OF nd] by blast
  show ?thesis
    by (cases b1; cases b2) (auto simp: p_isValidRange_def b1 b2 Let_def)
qed

lemma p_isValidRange_True:
  assumes v: "p_isValidRange m r SurrogatePairs = Inr True"
  shows "\<not> flaggedStart m (floorOrOne (ir_startLineNumber r)) (floorOrOne (ir_startColumn r))
       \<and> \<not> flaggedEnd m (floorOrOne (ir_endLineNumber r)) (floorOrOne (ir_endColumn r))"
  using v unfolding p_isValidRange_def flaggedStart_def flaggedEnd_def Let_def
  by (auto split: sum.splits bool.splits if_splits)

lemma validateRange_fast:
  assumes nd: "\<not> isDisposed m" and k: "ir_kind r = RangeInstance"
    and v: "p_isValidRange m r SurrogatePairs = Inr True"
  shows "validateRange m r =
           Inr \<lparr>startLineNumber = floorOrOne (ir_startLineNumber r),
                startColumn = floorOrOne (ir_startColumn r),
                endLineNumber = floorOrOne (ir_endLineNumber r),
                endColumn = floorOrOne (ir_endColumn r)\<rparr>"
  using nd k v by (simp add: validateRange_def p_assertNotDisposed_def)

lemma validateRange_slow:
  assumes nd: "\<not> isDisposed m"
    and k: "ir_kind r \<noteq> RangeInstance \<or> p_isValidRange m r SurrogatePairs = Inr False"
    and s: "p_validatePosition m (ir_startLineNumber r) (ir_startColumn r) Relaxed = Inr s"
    and e: "p_validatePosition m (ir_endLineNumber r) (ir_endColumn r) Relaxed = Inr e"
  shows "validateRange m r =
     Inr (if \<not> flaggedStart m (lineNumber s) (column s) \<and> \<not> flaggedEnd m (lineNumber e) (column e)
          then newRange (lineNumber s) (column s) (lineNumber e) (column e)
          else if lineNumber s = lineNumber e \<and> column s = column e
          then newRange (lineNumber s) (column s - 1) (lineNumber e) (column e - 1)
          else if flaggedStart m (lineNumber s) (column s) \<and> flaggedEnd m (lineNumber e) (column e)
          then newRange (lineNumber s) (column s - 1) (lineNumber e) (column e + 1)
          else if flaggedStart m (lineNumber s) (column s)
          then newRange (lineNumber s) (column s - 1) (lineNumber e) (column e)
          else newRange (lineNumber s) (column s) (lineNumber e) (column e + 1))"
proof -
  have sel: "(if ir_kind r = RangeInstance then p_isValidRange m r SurrogatePairs else Inr False) = Inr False"
    using k by auto
  show ?thesis
    unfolding validateRange_def sel
    using nd by (simp add: p_assertNotDisposed_def s e Let_def flaggedStart_def flaggedEnd_def)
qed

lemma validateRange_not_disposed: "validateRange m r = Inr R \<Longrightarrow> \<not> isDisposed m"
  by (auto simp: validateRange_def p_assertNotDisposed_def split: if_splits)

text \<open>
  Claim C5, as amended. On every model whose buffer has no line in which a high surrogate
  is directly followed by another high surrogate (well-formed UTF-16 text is such a
  buffer), neither end of the range that \<open>validateRange\<close> returns lies between the high
  and the low half of a surrogate pair, whatever the argument.
\<close>

theorem validateRange_surrogate_safe:
  assumes na: "noAdjacentHighSurrogates (buffer m)" and v: "validateRange m r = Inr R"
  shows "\<not> insideSurrogatePair (buffer m) (startLineNumber R) (startColumn R)
       \<and> \<not> insideSurrogatePair (buffer m) (endLineNumber R) (endColumn R)"
proof -
  have nd: "\<not> isDisposed m" using v by (rule validateRange_not_disposed)
  obtain b where b: "p_isValidRange m r SurrogatePairs = Inr b"
    using p_isValidRange_total [OF nd] by blast
  show ?thesis
  proof (cases "ir_kind r = RangeInstance \<and> b")
    case True
    then have vt: "p_isValidRange m r SurrogatePairs = Inr True" using b by simp
    have "R = \<lparr>startLineNumber = floorOrOne (ir_startLineNumber r),
                startColumn = floorOrOne (ir_startColumn r),
                endLineNumber = floorOrOne (ir_endLineNumber r),
                endColumn = floorOrOne (ir_endColumn r)\<rparr>"
      using validateRange_fast [OF nd _ vt] True v by simp
    then show ?thesis
      using p_isValidRange_True [OF vt] not_flaggedStart not_flaggedEnd by simp
  next
    case False
    then have k: "ir_kind r \<noteq> RangeInstance \<or> p_isValidRange m r SurrogatePairs = Inr False"
      using b by auto
    obtain s where s: "p_validatePosition m (ir_startLineNumber r) (ir_startColumn r) Relaxed = Inr s"
      and ws: "withinBounds m s"
      using p_validatePosition_relaxed [OF nd] by blast
    obtain e where e: "p_validatePosition m (ir_endLineNumber r) (ir_endColumn r) Relaxed = Inr e"
      and we: "withinBounds m e"
      using p_validatePosition_relaxed [OF nd] by blast
    let ?P = "\<lambda>l c. \<not> insideSurrogatePair (buffer m) l c"
    let ?fs = "flaggedStart m (lineNumber s) (column s)"
    let ?fe = "flaggedEnd m (lineNumber e) (column e)"
    have back_s: "?fs \<Longrightarrow> ?P (lineNumber s) (column s - 1)"
      by (rule moved_back_outside) (simp_all add: flaggedStart_def)
    have back_e: "?fe \<Longrightarrow> ?P (lineNumber e) (column e - 1)"
      by (rule moved_back_outside) (simp_all add: flaggedEnd_def)
    have we': "withinBounds m \<lparr>lineNumber = lineNumber e, column = column e\<rparr>"
      using we by (simp add: withinBounds_def)
    have fwd_e: "?fe \<Longrightarrow> ?P (lineNumber e) (column e + 1)"
      using moved_forward_outside [OF na we'] by simp
    have same: "lineNumber s = lineNumber e \<Longrightarrow> column s = column e \<Longrightarrow> ?fe \<Longrightarrow> ?fs"
      by (simp add: flaggedStart_def flaggedEnd_def)
    note R = validateRange_slow [OF nd k s e, unfolded v]
    consider (none) "\<not> ?fs" "\<not> ?fe"
      | (coll) "?fs \<or> ?fe" "lineNumber s = lineNumber e" "column s = column e"
      | (both) "?fs" "?fe" "\<not> (lineNumber s = lineNumber e \<and> column s = column e)"
      | (st) "?fs" "\<not> ?fe" "\<not> (lineNumber s = lineNumber e \<and> column s = column e)"
      | (en) "\<not> ?fs" "?fe" "\<not> (lineNumber s = lineNumber e \<and> column s = column e)"
      by blast
    then show ?thesis
    proof cases
      case none
      then have "R = newRange (lineNumber s) (column s) (lineNumber e) (column e)" using R by simp
      then show ?thesis
        using newRange_ends [of ?P, OF not_flaggedStart [OF none(1)] not_flaggedEnd [OF none(2)]] by simp
    next
      case coll
      then have fs: "?fs" using same by blast
      have "R = newRange (lineNumber s) (column s - 1) (lineNumber e) (column e - 1)"
        using R coll fs by simp
      moreover have "?P (lineNumber e) (column e - 1)" using back_s [OF fs] coll by simp
      ultimately show ?thesis
        using newRange_ends [of ?P, OF back_s [OF fs]] by simp
    next
      case both
      then have "R = newRange (lineNumber s) (column s - 1) (lineNumber e) (column e + 1)"
        using R by auto
      then show ?thesis
        using newRange_ends [of ?P, OF back_s [OF both(1)] fwd_e [OF both(2)]] by simp
    next
      case st
      then have "R = newRange (lineNumber s) (column s - 1) (lineNumber e) (column e)"
        using R by auto
      then show ?thesis
        using newRange_ends [of ?P, OF back_s [OF st(1)] not_flaggedEnd [OF st(2)]] by simp
    next
      case en
      then have "R = newRange (lineNumber s) (column s) (lineNumber e) (column e + 1)"
        using R by auto
      then show ?thesis
        using newRange_ends [of ?P, OF not_flaggedStart [OF en(1)] fwd_e [OF en(2)]] by simp
    qed
  qed
qed

lemmas range_eval_simps = validateRange_def p_isValidRange_def newRange_def insideSurrogatePair_def

text \<open>
  Claim C5 as stated fails: in the line \<open>D800 D800 DC00\<close> the end (1,2) follows a high
  surrogate, so it is moved forward to (1,3), which lies between the pair \<open>D800 DC00\<close>.
\<close>

theorem validateRange_surrogate_safe_counterexample:
  "validateRange loneSurrogatesModel
       \<lparr>ir_startLineNumber = Num 1, ir_startColumn = Num 1, ir_endLineNumber = Num 1,
        ir_endColumn = Num 2, ir_kind = PlainObject\<rparr>
     = Inr \<lparr>startLineNumber = 1, startColumn = 1, endLineNumber = 1, endColumn = 3\<rparr>
   \<and> insideSurrogatePair (buffer loneSurrogatesModel) 1 3"
  by (simp add: loneSurrogatesModel_def range_eval_simps eval_simps)

theorem validateRange_surrogate_safe_witness:
  "noAdjacentHighSurrogates (buffer emojiModel)
   \<and> validateRange emojiModel
       \<lparr>ir_startLineNumber = Num 1, ir_startColumn = Num 1, ir_endLineNumber = Num 1,
        ir_endColumn = Num 3, ir_kind = PlainObject\<rparr>
     = Inr \<lparr>startLineNumber = 1, startColumn = 1, endLineNumber = 1, endColumn = 4\<rparr>
   \<and> \<not> insideSurrogatePair (buffer emojiModel) 1 1
   \<and> \<not> insideSurrogatePair (buffer emojiModel) 1 4"
proof -
  have na: "noAdjacentHighSurrogates (buffer emojiModel)"
    by (simp add: noAdjacentHighSurrogates_def emojiModel_def eval_simps)
  have v: "validateRange emojiModel
       \<lparr>ir_startLineNumber = Num 1, ir_startColumn = Num 1, ir_endLineNumber = Num 1,
        ir_endColumn = Num 3, ir_kind = PlainObject\<rparr>
     = Inr \<lparr>startLineNumber = 1, startColumn = 1, endLineNumber = 1, endColumn = 4\<rparr>"
    by (simp add: emojiModel_def range_eval_simps eval_simps)
  show ?thesis
    using na v validateRange_surrogate_safe [OF na v] by simp
qed

lemma p_isValidPosition_relaxed_True:
  assumes nd: "\<not> isDisposed m" and v: "p_isValidPosition m a c Relaxed = Inr True"
  shows "p_validatePosition m a c Relaxed = Inr \<lparr>lineNumber = floorOrOne a, column = floorOrOne c\<rparr>"
proof -
  obtain l k where lc: "a = Num l" "c = Num k"
    using v by (cases a; cases c) (simp_all add: p_isValidPosition_def)
  have facts: "1 \<le> l" "1 \<le> k" "of_int (toInt32 l) = l" "of_int (toInt32 k) = k"
    "\<lfloor>l\<rfloor> \<le> buffer_getLineCount (buffer m)"
    using v unfolding lc p_isValidPosition_def by (auto split: if_splits)
  have il: "of_int \<lfloor>l\<rfloor> = l" and ic: "of_int \<lfloor>k\<rfloor> = k"
    using facts toInt32_integral by blast+
  have l1: "1 \<le> \<lfloor>l\<rfloor>" and c1: "1 \<le> \<lfloor>k\<rfloor>" using facts by linarith+
  have c_one: "k = 1 \<longleftrightarrow> \<lfloor>k\<rfloor> = 1" using ic by (metis floor_one of_int_1)
  have k2: "\<lfloor>k\<rfloor> \<noteq> 1 \<Longrightarrow> \<not> k < 2"
  proof -
    assume "\<lfloor>k\<rfloor> \<noteq> 1"
    then have "2 \<le> \<lfloor>k\<rfloor>" using c1 by linarith
    then show "\<not> k < 2" by linarith
  qed
  show ?thesis
    using v nd l1 c1 facts(5) c_one k2
    unfolding lc p_isValidPosition_def p_validatePosition_def
    by (auto simp: getLineMaxColumn_ok floorOrOne_def Let_def split: if_splits)
qed

lemma p_isValidRange_True_start:
  "p_isValidRange m r vt = Inr True
     \<Longrightarrow> p_isValidPosition m (ir_startLineNumber r) (ir_startColumn r) Relaxed = Inr True"
  unfolding p_isValidRange_def by (auto split: sum.splits bool.splits)

text \<open>
  Claim C8. On a model that is not disposed, \<open>validateRange\<close> returns a collapsed range
  for every collapsed argument; and when the clamped position of the argument lies between
  the two halves of a surrogate pair, both ends of the result are that position moved back
  by one column.
\<close>

theorem validateRange_collapsed:
  assumes nd: "\<not> isDisposed m"
    and cl: "ir_startLineNumber r = ir_endLineNumber r" and cc: "ir_startColumn r = ir_endColumn r"
  shows "\<exists>R q. validateRange m r = Inr R
           \<and> p_validatePosition m (ir_startLineNumber r) (ir_startColumn r) Relaxed = Inr q
           \<and> startLineNumber R = endLineNumber R \<and> startColumn R = endColumn R
           \<and> (insideSurrogatePair (buffer m) (lineNumber q) (column q)
                \<longrightarrow> R = \<lparr>startLineNumber = lineNumber q, startColumn = column q - 1,
                          endLineNumber = lineNumber q, endColumn = column q - 1\<rparr>)"
proof -
  obtain b where b: "p_isValidRange m r SurrogatePairs = Inr b"
    using p_isValidRange_total [OF nd] by blast
  obtain q where q: "p_validatePosition m (ir_startLineNumber r) (ir_startColumn r) Relaxed = Inr q"
    using p_validatePosition_relaxed [OF nd] by blast
  have qe: "p_validatePosition m (ir_endLineNumber r) (ir_endColumn r) Relaxed = Inr q"
    using q cl cc by simp
  have ins: "insideSurrogatePair (buffer m) (lineNumber q) (column q)
               \<Longrightarrow> flaggedStart m (lineNumber q) (column q)"
    by (simp add: insideSurrogatePair_def flaggedStart_def)
  show ?thesis
  proof (cases "ir_kind r = RangeInstance \<and> b")
    case True
    then have vt: "p_isValidRange m r SurrogatePairs = Inr True" using b by simp
    have qf: "q = \<lparr>lineNumber = floorOrOne (ir_startLineNumber r), column = floorOrOne (ir_startColumn r)\<rparr>"
      using p_isValidPosition_relaxed_True [OF nd p_isValidRange_True_start [OF vt]] q by simp
    have "\<not> insideSurrogatePair (buffer m) (lineNumber q) (column q)"
      using p_isValidRange_True [OF vt] not_flaggedStart unfolding qf by simp
    then show ?thesis
      using validateRange_fast [OF nd _ vt] True q cl cc by simp
  next
    case False
    then have k: "ir_kind r \<noteq> RangeInstance \<or> p_isValidRange m r SurrogatePairs = Inr False"
      using b by auto
    show ?thesis
      using validateRange_slow [OF nd k q qe] q ins
      by (auto simp: newRange_def)
  qed
qed

theorem validateRange_collapsed_witness:
  "\<not> isDisposed emojiModel
   \<and> p_validatePosition emojiModel (Num 1) (Num 3) Relaxed = Inr \<lparr>lineNumber = 1, column = 3\<rparr>
   \<and> insideSurrogatePair (buffer emojiModel) 1 3
   \<and> validateRange emojiModel
       \<lparr>ir_startLineNumber = Num 1, ir_startColumn = Num 3, ir_endLineNumber = Num 1,
        ir_endColumn = Num 3, ir_kind = RangeInstance\<rparr>
     = Inr \<lparr>startLineNumber = 1, startColumn = 2, endLineNumber = 1, endColumn = 2\<rparr>"
proof -
  have nd: "\<not> isDisposed emojiModel" by (simp add: emojiModel_def newTextModel_def)
  have q: "p_validatePosition emojiModel (Num 1) (Num 3) Relaxed = Inr \<lparr>lineNumber = 1, column = 3\<rparr>"
    by (simp add: emojiModel_def eval_simps)
  have ins: "insideSurrogatePair (buffer emojiModel) 1 3"
    by (simp add: emojiModel_def range_eval_simps eval_simps)
  show ?thesis
    using nd q ins
      validateRange_collapsed [OF nd, of "\<lparr>ir_startLineNumber = Num 1, ir_startColumn = Num 3,
        ir_endLineNumber = Num 1, ir_endColumn = Num 3, ir_kind = RangeInstance\<rparr>"]
    by auto
qed

lemma positionAtFrom_offset:
  assumes "1 \<le> e" "n < length ls" "1 \<le> c" "c \<le> int (length (ls ! n)) + 1"
  shows "positionAtFrom e k ls (sum_list (map (\<lambda>l. int (length l) + e) (take n ls)) + (c - 1))
           = \<lparr>lineNumber = k + int n, column = c\<rparr>"
  using assms
proof (induction e k ls "sum_list (map (\<lambda>l. int (length l) + e) (take n ls)) + (c - 1)"
       arbitrary: n rule: positionAtFrom.induct)
  case (1 e k)
  then show ?case by simp
next
  case (2 e k l)
  then show ?case by simp
next
  case (3 e k l l' ls)
  show ?case
  proof (cases n)
    case 0
    then show ?thesis using 3(2-) by simp
  next
    case (Suc n')
    have nonneg: "0 \<le> sum_list (map (\<lambda>l. int (length l) + e) (take n' (l' # ls)))"
      using 3(2) by (intro sum_list_nonneg) auto
    have off: "sum_list (map (\<lambda>l. int (length l) + e) (take n (l # l' # ls))) + (c - 1)
                 = int (length l) + e + (sum_list (map (\<lambda>l. int (length l) + e) (take n' (l' # ls))) + (c - 1))"
      using Suc by simp
    have ge: "\<not> sum_list (map (\<lambda>l. int (length l) + e) (take n (l # l' # ls))) + (c - 1) < int (length l) + e"
      unfolding off using nonneg 3(4) by linarith
    have IH: "positionAtFrom e (k + 1) (l' # ls)
                (sum_list (map (\<lambda>l. int (length l) + e) (take n' (l' # ls))) + (c - 1))
              = \<lparr>lineNumber = k + 1 + int n', column = c\<rparr>"
      using 3(1) [OF ge _ 3(2), of n'] 3(3-) Suc off by simp
    show ?thesis
      using ge IH Suc off by simp
  qed
qed

lemma offset_le_length:
  assumes "0 \<le> e" "n < length ls" "c \<le> int (length (ls ! n)) + 1"
  shows "sum_list (map (\<lambda>l. int (length l) + e) (take n ls)) + (c - 1)
           \<le> sum_list (map (\<lambda>l. int (length l)) ls) + (int (length ls) - 1) * e"
  using assms
proof (induction ls arbitrary: n)
  case Nil
  then show ?case by simp
next
  case (Cons l ls)
  show ?case
  proof (cases n)
    case 0
    have "0 \<le> sum_list (map (\<lambda>l. int (length l)) ls)" by (intro sum_list_nonneg) auto
    moreover have "0 \<le> int (length ls) * e" using Cons(2) by simp
    ultimately show ?thesis using 0 Cons(4) by simp
  next
    case (Suc n')
    have "sum_list (map (\<lambda>l. int (length l) + e) (take n' ls)) + (c - 1)
           \<le> sum_list (map (\<lambda>l. int (length l)) ls) + (int (length ls) - 1) * e"
      using Cons(1) [of n'] Cons(2-) Suc by simp
    then show ?thesis using Suc by (simp add: algebra_simps)
  qed
qed

lemma offset_nonneg:
  assumes "0 \<le> e" "1 \<le> c"
  shows "0 \<le> sum_list (map (\<lambda>l. int (length l) + e) (take n ls)) + (c - 1)"
proof -
  have "0 \<le> sum_list (map (\<lambda>l. int (length l) + e) (take n ls))"
    using assms(1) by (intro sum_list_nonneg) auto
  then show ?thesis using assms(2) by simp
qed

lemma eolLength_pos: "1 \<le> eolLength b"
  by (simp add: eolLength_def split: EndOfLine.splits)

lemma p_validatePosition_relaxed_fixed:
  assumes nd: "\<not> isDisposed m" and wb: "withinBounds m \<lparr>lineNumber = l, column = c\<rparr>"
  shows "p_validatePosition m (Num (of_int l)) (Num (of_int c)) Relaxed = Inr \<lparr>lineNumber = l, column = c\<rparr>"
  using assms
  by (auto simp: withinBounds_def p_validatePosition_def Let_def floorOrOne_def getLineMaxColumn_ok)

text \<open>
  Claim C4. On a model that is not disposed, for every position within the bounds of the
  buffer (a line between 1 and the line count, a column between 1 and the length of the
  line plus one), \<open>getPositionAt (getOffsetAt p)\<close> is \<open>p\<close>.
\<close>

theorem getPositionAt_getOffsetAt:
  assumes nd: "\<not> isDisposed m" and wb: "withinBounds m \<lparr>lineNumber = l, column = c\<rparr>"
  shows "bindE (getOffsetAt m \<lparr>ip_lineNumber = Num (of_int l), ip_column = Num (of_int c),
                               ip_isPosition = inst\<rparr>)
           (getPositionAt m)
         = Inr \<lparr>lineNumber = l, column = c\<rparr>"
proof -
  let ?ls = "bufferLines (buffer m)" and ?e = "eolLength (buffer m)"
  define n where "n = nat (l - 1)"
  define off where "off = sum_list (map (\<lambda>x. int (length x) + ?e) (take n ?ls)) + (c - 1)"
  have b: "1 \<le> l" "l \<le> int (length ?ls)" "1 \<le> c" "c \<le> int (length (?ls ! n)) + 1"
    using wb by (simp_all add: withinBounds_def buffer_getLineCount_def buffer_getLineLength_def
        buffer_getLineContent_def n_def)
  have n: "n < length ?ls" "1 + int n = l" using b(1,2) unfolding n_def by linarith+
  have e1: "1 \<le> ?e" by (rule eolLength_pos)
  then have e0: "0 \<le> ?e" by linarith
  have o: "getOffsetAt m \<lparr>ip_lineNumber = Num (of_int l), ip_column = Num (of_int c),
                            ip_isPosition = inst\<rparr> = Inr off"
    using nd p_validatePosition_relaxed_fixed [OF nd wb]
    by (simp add: getOffsetAt_def p_assertNotDisposed_def buffer_getOffsetAt_def off_def n_def)
  have lo: "0 \<le> off" unfolding off_def using offset_nonneg [OF e0 b(3)] .
  have hi: "off \<le> buffer_getLength (buffer m)"
    unfolding off_def buffer_getLength_def buffer_getLineCount_def
    using offset_le_length [OF e0 n(1) b(4)] .
  have clamp: "min (buffer_getLength (buffer m)) (max 0 off) = off" using lo hi by simp
  have g: "getPositionAt m off = Inr (buffer_getPositionAt (buffer m) off)"
    using nd by (simp add: getPositionAt_def p_assertNotDisposed_def clamp Let_def)
  have "buffer_getPositionAt (buffer m) off = \<lparr>lineNumber = l, column = c\<rparr>"
    unfolding buffer_getPositionAt_def off_def
    using positionAtFrom_offset [OF e1 n(1) b(3) b(4), of 1] n(2) by simp
  then show ?thesis using o g by (simp add: bindE_def)
qed

theorem getPositionAt_getOffsetAt_witness:
  "\<not> isDisposed emojiModel
   \<and> withinBounds emojiModel \<lparr>lineNumber = 2, column = 3\<rparr>
   \<and> getOffsetAt emojiModel \<lparr>ip_lineNumber = Num 2, ip_column = Num 3, ip_isPosition = False\<rparr> = Inr 7
   \<and> getPositionAt emojiModel 7 = Inr \<lparr>lineNumber = 2, column = 3\<rparr>"
proof -
  have nd: "\<not> isDisposed emojiModel" by (simp add: emojiModel_def newTextModel_def)
  have wb: "withinBounds emojiModel \<lparr>lineNumber = 2, column = 3\<rparr>"
    by (simp add: withinBounds_def emojiModel_def eval_simps)
  have o: "getOffsetAt emojiModel \<lparr>ip_lineNumber = Num 2, ip_column = Num 3, ip_isPosition = False\<rparr> = Inr 7"
    by (simp add: getOffsetAt_def buffer_getOffsetAt_def eolLength_def emojiModel_def eval_simps)
  show ?thesis
    using nd wb o getPositionAt_getOffsetAt [OF nd wb, of False]
    by (simp add: bindE_def)
qed

section \<open>Properties of the content emitter\<close>







section \<open>Properties of replacing the value and of disposing\<close>













section \<open>Properties of the decoration store\<close>

declare decimal.simps [simp del]

declare deltaDecorationsLoop.simps [simp del]

lemma clampRelaxed_total:
  assumes nd: "\<not> isDisposed m"
  shows "\<exists>l c. clampRelaxed m a b = Inr (l, c)"
  using getLineMaxColumn_ok [OF nd lineCount_pos] getLineMaxColumn_ok [OF nd, of a]
  by (auto simp: clampRelaxed_def Let_def)

lemma relaxedRange_total:
  assumes nd: "\<not> isDisposed m"
  shows "\<exists>R. p_validateRangeRelaxedNoAllocations m r = Inr R"
proof -
  obtain sl sc where s: "clampRelaxed m (floorOrOne (ir_startLineNumber r)) (floorOrOne (ir_startColumn r)) = Inr (sl, sc)"
    using clampRelaxed_total [OF nd] by blast
  obtain el ec where e: "clampRelaxed m (floorOrOne (ir_endLineNumber r)) (floorOrOne (ir_endColumn r)) = Inr (el, ec)"
    using clampRelaxed_total [OF nd] by blast
  show ?thesis
    by (simp add: p_validateRangeRelaxedNoAllocations_def s e)
qed

lemma takeOldNode_isDisposed: "isDisposed (snd (snd (takeOldNode olds m))) = isDisposed m"
  by (simp add: takeOldNode_def split: prod.splits option.splits)

text \<open>
  On a model that is not disposed, steps (3) and (4) of \<open>_deltaDecorationsImpl\<close> always
  end at the identifier \<open>versionId\<close>.
\<close>

lemma placeNewDecoration_throws:
  assumes nd: "\<not> isDisposed m"
  shows "fst (placeNewDecoration owner node d m) = Inl (ReferenceError ''versionId'')"
proof -
  let ?m1 = "snd (case node of
           Some n \<Rightarrow> (n, m)
         | None \<Rightarrow>
             (let internalDecorationId = Suc (lastDecorationId m);
                  decorationId = decorationIdOf (instanceId m) internalDecorationId;
                  n = newIntervalNode decorationId 0 0
              in (n, m\<lparr>lastDecorationId := internalDecorationId,
                       decorations := (decorations m)(decorationId \<mapsto> n)\<rparr>)))"
  have "\<not> isDisposed ?m1" using nd by (simp add: Let_def split: option.splits)
  then obtain R where R: "p_validateRangeRelaxedNoAllocations ?m1 (dd_range d) = Inr R"
    using relaxedRange_total by blast
  show ?thesis
    using R
    by (simp add: placeNewDecoration_def unboundIdentifier_def Let_def case_prod_beta)
qed

text \<open>
  Every call of \<open>deltaDecorations\<close> with at least one new descriptor, on a model that is
  not disposed, ends with \<open>ReferenceError: versionId is not defined\<close>, whatever the old
  ids and the descriptors are.
\<close>

lemma deltaDecorations_new_descriptor_throws:
  assumes nd: "\<not> isDisposed m" and news: "news \<noteq> []"
  shows "fst (deltaDecorations olds news owner m) = Inl (ReferenceError ''versionId'')"
proof -
  obtain d news' where n: "news = d # news'" using news by (cases news) auto
  have loop: "fst (deltaDecorationsLoop owner os (d # news') [] m0) = Inl (ReferenceError ''versionId'')"
    if "\<not> isDisposed m0" for os m0
  proof -
    have t: "\<not> isDisposed (snd (snd (takeOldNode os m0)))"
      using that by (simp add: takeOldNode_isDisposed)
    show ?thesis
      using placeNewDecoration_throws [OF t, of owner "fst (takeOldNode os m0)" d]
      by (subst deltaDecorationsLoop.simps) (auto split: prod.splits sum.splits)
  qed
  show ?thesis
    using nd n loop
    by (simp add: deltaDecorations_def p_deltaDecorationsImpl_def p_assertNotDisposed_def
        Let_def case_prod_beta)
qed

lemma digitChar_1: "digitChar 1 = CHR ''1''"
  unfolding digitChar_def by code_simp

lemma decimal_1: "decimal 1 = ''1''"
  using digitChar_1 by (subst decimal.simps) simp

lemma decimal_Suc_0: "decimal (Suc 0) = ''1''"
  using decimal_1 by simp

lemmas decoration_eval_simps = deltaDecorations_def p_deltaDecorationsImpl_def
  deltaDecorationsLoop.simps takeOldNode_def placeNewDecoration_def unboundIdentifier_def
  p_validateRangeRelaxedNoAllocations_def clampRelaxed_def p_normalizeOptions_def
  decorationIdOf_def tree_insert_def tree_delete_def decorationsEmitter_fire_def
  decorationsEmitter_beginDeferredEmit_def decorationsEmitter_endDeferredEmit_def
  node_reset_def node_setOptions_def newIntervalNode_def getDecorationOptions_def
  decorationAt_def exampleOptions_def emojiModel_def failedDecoration_def
  buffer_getOffsetAt_def eolLength_def newRange_def getAllDecorations_def
  p_ensureNodesHaveRanges_def tree_search_def tree_nodes_def

text \<open>
  Claim C2 at a concrete input. On the model \<open>emojiModel\<close>, which has no decoration,
  \<open>deltaDecorations([], [d], 7)\<close> with a descriptor \<open>d\<close> over (1,1)-(1,2) does not
  return an id: it throws \<open>ReferenceError: versionId is not defined\<close>. The call is not
  atomic either: it has counted the decoration id up and has stored a node \<open>a;1\<close> with
  the owner 7, without range and options, in the dictionary of decorations, while the tree
  holds no node, so that \<open>getAllDecorations\<close> answers with the empty list.
\<close>

theorem deltaDecorations_throws_halfway:
  "deltaDecorations (Some []) [decorationAt 1 1 1 2] 7 emojiModel
     = (Inl (ReferenceError ''versionId''), failedDecoration)
   \<and> decorations failedDecoration ''a;1'' \<noteq> None
   \<and> decorations emojiModel ''a;1'' = None
   \<and> fst (getAllDecorations failedDecoration 7 False) = []"
  by (simp add: decoration_eval_simps eval_simps decimal_Suc_0 decimal_1 List.map_filter_def)

section \<open>Properties of editing\<close>

lemma validateRange_same:
  assumes "buffer m1 = buffer m2" "isDisposed m1 = isDisposed m2"
  shows "validateRange m1 r = validateRange m2 r"
proof -
  have g: "getLineMaxColumn m1 = getLineMaxColumn m2"
    using assms
    by (intro ext) (simp add: getLineMaxColumn_def getLineCount_def p_assertNotDisposed_def)
  have v: "p_isValidPosition m1 a b c = p_isValidPosition m2 a b c" for a b c
    unfolding p_isValidPosition_def g assms(1) ..
  have w: "p_validatePosition m1 a b c = p_validatePosition m2 a b c" for a b c
    unfolding p_validatePosition_def g assms(1) ..
  have x: "p_isValidRange m1 a b = p_isValidRange m2 a b" for a b
    unfolding p_isValidRange_def v assms(1) ..
  show ?thesis
    unfolding validateRange_def v w x assms p_assertNotDisposed_def ..
qed

lemma p_validateEditOperations_same:
  assumes "buffer m1 = buffer m2" "isDisposed m1 = isDisposed m2"
  shows "p_validateEditOperations m1 ops = p_validateEditOperations m2 ops"
proof (induction ops)
  case Nil
  then show ?case by simp
next
  case (Cons a ops)
  have "p_validateEditOperation m1 a = p_validateEditOperation m2 a"
    unfolding p_validateEditOperation_def validateRange_same [OF assms] ..
  then show ?case using Cons by (simp split: sum.splits)
qed

lemma applyEdits_unfold:
  "applyEdits ext rawOperations m =
     (let m2 = m\<lparr>onDidChangeDecorations := decorationsEmitter_beginDeferredEmit (onDidChangeDecorations m),
                   eventEmitter := contentEmitter_beginDeferredEmit (eventEmitter m)\<rparr>;
          rm = (case p_validateEditOperations m rawOperations of
                  Inl e \<Rightarrow> (Inl e, m2)
                | Inr operations \<Rightarrow> p_doApplyEdits ext operations m2);
          m4 = (snd rm)\<lparr>eventEmitter := contentEmitter_endDeferredEmit None (eventEmitter (snd rm))\<rparr>
      in (fst rm, m4\<lparr>onDidChangeDecorations :=
                        decorationsEmitter_endDeferredEmit (onDidChangeDecorations m4)\<rparr>))"
proof -
  have v: "p_validateEditOperations (m\<lparr>onDidChangeDecorations := x, eventEmitter := y\<rparr>) rawOperations
             = p_validateEditOperations m rawOperations" for x y
    by (rule p_validateEditOperations_same) simp_all
  show ?thesis
    by (cases "p_validateEditOperations m rawOperations")
       (simp_all add: applyEdits_def Let_def v case_prod_beta)
qed

text \<open>
  The loop over the reported changes ends at its first statement, with the state as it
  was.
\<close>

lemma contentChangesLoop_throws:
  "contentChangesLoop ext newLineCount (change # rest) lineCount raw m
     = (Inl (ReferenceError ''countEOL''), m)"
  by (simp add: unboundIdentifier_def)

text \<open>
  What \<open>_doApplyEdits\<close> does: the buffer is changed and the call is logged; when the
  buffer reports no change the reverse edits are returned, otherwise the call ends with
  \<open>ReferenceError: countEOL is not defined\<close>. No event is handed to the emitter.
\<close>

lemma p_doApplyEdits_result:
  "p_doApplyEdits ext operations m =
     (if result_changes (fst (ext_applyEdits ext (buffer m) operations (trimAutoWhitespace m))) = []
      then Inr (reverseEdits (fst (ext_applyEdits ext (buffer m) operations (trimAutoWhitespace m))))
      else Inl (ReferenceError ''countEOL''),
      m\<lparr>buffer := snd (ext_applyEdits ext (buffer m) operations (trimAutoWhitespace m)),
        callLog := callLog m @ [BufferApplyEdits],
        trimAutoWhitespaceLines :=
          trimAutoWhitespaceLineNumbers
            (fst (ext_applyEdits ext (buffer m) operations (trimAutoWhitespace m)))\<rparr>)"
proof (cases "result_changes (fst (ext_applyEdits ext (buffer m) operations (trimAutoWhitespace m)))")
  case Nil
  then show ?thesis by (simp add: p_doApplyEdits_def Let_def case_prod_beta)
next
  case (Cons c cs)
  then show ?thesis
    by (simp add: p_doApplyEdits_def Let_def case_prod_beta contentChangesLoop_throws
        del: contentChangesLoop.simps)
qed

text \<open>
  On a model with no deferred scope open, \<open>applyEdits\<close> delivers no content-changed
  event, and a batch that validates and for which the buffer reports a change ends with
  \<open>ReferenceError: countEOL is not defined\<close>.
\<close>

lemma applyEdits_delivers_nothing:
  assumes q: "deferredCnt (eventEmitter m) = 0" "deferredEvent (eventEmitter m) = None"
  shows "fired (eventEmitter (snd (applyEdits ext rawOperations m))) = fired (eventEmitter m)"
    and "p_validateEditOperations m rawOperations = Inr operations
         \<Longrightarrow> result_changes (fst (ext_applyEdits ext (buffer m) operations (trimAutoWhitespace m))) \<noteq> []
         \<Longrightarrow> fst (applyEdits ext rawOperations m) = Inl (ReferenceError ''countEOL'')"
  using q
  by (cases "p_validateEditOperations m rawOperations";
      simp add: applyEdits_unfold p_doApplyEdits_result Let_def
        contentEmitter_beginDeferredEmit_def contentEmitter_endDeferredEmit_def)+


lemmas edit_eval_simps = applyEdits_def p_doApplyEdits_def p_validateEditOperation_def
  unboundIdentifier_def exampleApplyEdits_def replaceInLines_def
  exampleExternals_def abModel_def insertAt_def insertedX_def orFalseB_def
  editedOnce_def editedTwice_def
  contentEmitter_beginDeferredEmit_def contentEmitter_endDeferredEmit_def
  decorationsEmitter_beginDeferredEmit_def decorationsEmitter_endDeferredEmit_def
  buffer_getOffsetAt_def buffer_getValueLengthInRange_def eolLength_def dispose_def
  emptyDisposedTextBuffer_def



text \<open>
  Claim C1 at a concrete input. Insert \<open>X\<close> after the first letter of the document
  \<open>ab\<close>, \<open>cd\<close>, then \<open>Y\<close> at the start of its second line. Each call changes
  the buffer and then ends with \<open>ReferenceError: countEOL is not defined\<close>, before
  \<open>_emitContentChangedEvent\<close> is reached: no content-changed event is delivered, on
  either channel, so that no version id reaches a listener. Apart from the buffer and the
  log of the calls the state of the model is as it was: the model has no version counter
  that an edit could count up.
\<close>

theorem applyEdits_throws_before_event:
  "applyEdits exampleExternals [insertAt 1 2 [0x58]] abModel
     = (Inl (ReferenceError ''countEOL''), editedOnce)
   \<and> applyEdits exampleExternals [insertAt 2 1 [0x59]] editedOnce
     = (Inl (ReferenceError ''countEOL''), editedTwice)
   \<and> bufferLines (buffer editedTwice) = [[0x61, 0x58, 0x62], [0x59, 0x63, 0x64]]
   \<and> fired (eventEmitter editedOnce) = []
   \<and> fired (eventEmitter editedTwice) = []"
  by (simp add: edit_eval_simps range_eval_simps eval_simps)

end
